theory Spec2Isabelle
  imports Main
begin

section \<open>Common vocabulary of the two Todo backends\<close>

text \<open>
  The repository holds two implementations of the same service: the UUID-keyed one under
  \<^verbatim>\<open>Todo/app\<close> (owner id in the path, status a string) and the integer-keyed one under
  \<^verbatim>\<open>backend/src\<close> (owner taken from the token only, status a boolean \<open>completed\<close>).
  Both are embedded here. Python exceptions are values: a request ends either in an
  \<open>HTTPException\<close> with its status code, in a request-validation error (FastAPI answers
  422), or in an exception nobody catches (FastAPI answers 500).

  A Python \<^verbatim>\<open>str\<close> is a \<open>string\<close> whose characters are read as code points below 256.
  A \<^verbatim>\<open>datetime\<close> is an integer (microseconds); every call of \<^verbatim>\<open>datetime.utcnow()\<close> in the
  source is a separate argument of the embedding, in evaluation order.
\<close>

type_synonym datetime = int

datatype py_exception =
    TypeError
  | ValueError
  | UnknownHashError
  | PasswordSizeError
  | NullPasswordError
  | IntegrityError

datatype failure =
    HTTPException nat
  | RequestValidationError
  | Unhandled py_exception

fun status_code :: "failure \<Rightarrow> nat" where
  "status_code (HTTPException n) = n"
| "status_code RequestValidationError = 422"
| "status_code (Unhandled e) = 500"

definition HTTP_401_UNAUTHORIZED :: nat where "HTTP_401_UNAUTHORIZED = 401"
definition HTTP_403_FORBIDDEN :: nat where "HTTP_403_FORBIDDEN = 403"
definition HTTP_404_NOT_FOUND :: nat where "HTTP_404_NOT_FOUND = 404"

text \<open>A UUID is represented by its canonical text, which is what \<^verbatim>\<open>str(uuid)\<close> returns.\<close>

datatype uuid = UUID (str_uuid: string)

text \<open>
  The field of an update body that Pydantic tracks in \<^verbatim>\<open>model_fields_set\<close>: a field is
  either absent from the body, or present with a value (which may be \<^verbatim>\<open>null\<close>).
\<close>

datatype 'a field = Unset | Given 'a

section \<open>UUID-keyed variant: models and task service\<close>

record User =
  user_id_pk :: uuid
  email :: string
  password_hash :: string
  user_created_at :: datetime

record Task =
  task_id :: uuid
  user_id :: uuid
  title :: string
  description :: "string option"
  status :: string
  created_at :: datetime
  updated_at :: datetime

record Session =
  users :: "User list"
  tasks :: "Task list"

record TaskCreate =
  tc_title :: string
  tc_description :: "string option"

record TaskUpdate =
  tu_title :: "string option field"
  tu_description :: "string option field"
  tu_status :: "string option field"

text \<open>
  \<^verbatim>\<open>session.add(task); session.commit()\<close>: for an object that was loaded from the table the
  row is written back under its primary key (\<open>commit_task\<close>); for a new object a row is
  inserted (\<open>insert_task\<close>), under a key that the caller of the model supplies as the fresh
  value of \<^verbatim>\<open>uuid4()\<close>.
\<close>

definition commit_task :: "Session \<Rightarrow> Task \<Rightarrow> Session" where
  "commit_task s t =
     s\<lparr>tasks := map (\<lambda>r. if task_id r = task_id t then t else r) (tasks s)\<rparr>"

definition insert_task :: "Session \<Rightarrow> Task \<Rightarrow> Session" where
  "insert_task s t = s\<lparr>tasks := tasks s @ [t]\<rparr>"

text \<open>\<^verbatim>\<open>select(Task).where(Task.user_id == user_id).order_by(Task.created_at.desc())\<close>\<close>

definition get_user_tasks :: "Session \<Rightarrow> uuid \<Rightarrow> Task list" where
  "get_user_tasks s uid =
     rev (sort_key created_at (filter (\<lambda>t. user_id t = uid) (tasks s)))"

text \<open>
  \<^verbatim>\<open>create_task\<close>: \<open>new_id\<close> is the value of \<^verbatim>\<open>uuid4()\<close>, \<open>now1\<close> and \<open>now2\<close> are the two
  readings of \<^verbatim>\<open>datetime.utcnow()\<close>, the first for \<open>created_at\<close>, the second for
  \<open>updated_at\<close>.
\<close>

definition create_task ::
  "Session \<Rightarrow> uuid \<Rightarrow> datetime \<Rightarrow> datetime \<Rightarrow> uuid \<Rightarrow> TaskCreate \<Rightarrow> Task \<times> Session" where
  "create_task s new_id now1 now2 uid task_data =
     (let task = \<lparr>task_id = new_id, user_id = uid, title = tc_title task_data,
                  description = tc_description task_data, status = ''pending'',
                  created_at = now1, updated_at = now2\<rparr>
      in (task, insert_task s task))"

definition get_task_by_id :: "Session \<Rightarrow> uuid \<Rightarrow> Task option" where
  "get_task_by_id s tid = find (\<lambda>t. task_id t = tid) (tasks s)"

text \<open>
  \<^verbatim>\<open>update_task\<close>: \<^verbatim>\<open>model_dump(exclude_unset=True)\<close> yields exactly the fields that were
  present in the body, and \<^verbatim>\<open>setattr\<close> stores each of them, \<^verbatim>\<open>None\<close> included. The columns
  \<open>title\<close> and \<open>status\<close> are declared non-nullable, so the commit of a \<^verbatim>\<open>None\<close> there is refused
  by the database (\<open>IntegrityError\<close>, which no handler catches).
\<close>

definition update_task ::
  "Session \<Rightarrow> datetime \<Rightarrow> Task \<Rightarrow> TaskUpdate \<Rightarrow> failure + (Task \<times> Session)" where
  "update_task s now task task_data =
     (if tu_title task_data = Given None \<or> tu_status task_data = Given None
      then Inl (Unhandled IntegrityError)
      else
        let t1 = (case tu_title task_data of Given (Some v) \<Rightarrow> task\<lparr>title := v\<rparr> | _ \<Rightarrow> task);
            t2 = (case tu_description task_data of Given v \<Rightarrow> t1\<lparr>description := v\<rparr> | Unset \<Rightarrow> t1);
            t3 = (case tu_status task_data of Given (Some v) \<Rightarrow> t2\<lparr>status := v\<rparr> | _ \<Rightarrow> t2);
            t4 = t3\<lparr>updated_at := now\<rparr>
        in Inr (t4, commit_task s t4))"

definition delete_task :: "Session \<Rightarrow> Task \<Rightarrow> Session" where
  "delete_task s task = s\<lparr>tasks := filter (\<lambda>r. task_id r \<noteq> task_id task) (tasks s)\<rparr>"

definition validate_task_ownership :: "Task \<Rightarrow> uuid \<Rightarrow> bool" where
  "validate_task_ownership task uid = (user_id task = uid)"

definition toggle_task_completion :: "Session \<Rightarrow> datetime \<Rightarrow> Task \<Rightarrow> Task \<times> Session" where
  "toggle_task_completion s now task =
     (let t1 = (if status task = ''completed'' then task\<lparr>status := ''pending''\<rparr>
                else task\<lparr>status := ''completed''\<rparr>);
          t2 = t1\<lparr>updated_at := now\<rparr>
      in (t2, commit_task s t2))"

section \<open>Python string primitives used by the validators\<close>

text \<open>
  \<^verbatim>\<open>str.strip()\<close> removes the characters for which \<^verbatim>\<open>str.isspace\<close> holds from both ends;
  below 256 these are the code points 9 to 13, 28 to 32, 133 and 160.
\<close>

definition py_isspace :: "char \<Rightarrow> bool" where
  "py_isspace c =
     (let n = (of_char c :: nat)
      in (9 \<le> n \<and> n \<le> 13) \<or> (28 \<le> n \<and> n \<le> 32) \<or> n = 133 \<or> n = 160)"

definition strip :: "string \<Rightarrow> string" where
  "strip v = rev (dropWhile py_isspace (rev (dropWhile py_isspace v)))"

definition is_digit :: "char \<Rightarrow> bool" where
  "is_digit c = (let n = (of_char c :: nat) in 48 \<le> n \<and> n \<le> 57)"

definition digit_val :: "char \<Rightarrow> nat" where
  "digit_val c = (of_char c :: nat) - 48"

fun has_double_underscore :: "string \<Rightarrow> bool" where
  "has_double_underscore (a # b # r) =
     ((a = CHR ''_'' \<and> b = CHR ''_'') \<or> has_double_underscore (b # r))"
| "has_double_underscore _ = False"

text \<open>
  The digit part of a decimal literal accepted by \<^verbatim>\<open>int(str)\<close>: digits, with single
  underscores allowed between two digits, and at most 4300 digits (the interpreter's
  default limit on the conversion of a string).
\<close>

definition py_digits :: "string \<Rightarrow> nat option" where
  "py_digits v =
     (if v = [] \<or> \<not> is_digit (hd v) \<or> \<not> is_digit (last v)
         \<or> has_double_underscore v
         \<or> list_ex (\<lambda>c. \<not> is_digit c \<and> c \<noteq> CHR ''_'') v
         \<or> length (filter is_digit v) > 4300
      then None
      else Some (foldl (\<lambda>n c. 10 * n + digit_val c) 0 (filter is_digit v)))"

text \<open>
  The whitespace that \<^verbatim>\<open>int(str)\<close> skips at both ends is narrower than that of
  \<^verbatim>\<open>str.strip()\<close>: the ASCII blanks 9 to 13 and 32, and beyond ASCII the code points that
  the conversion first maps to a blank (133 and 160 below 256). The separators 28 to 31 are
  not skipped.
\<close>

definition int_isspace :: "char \<Rightarrow> bool" where
  "int_isspace c =
     (let n = (of_char c :: nat)
      in (9 \<le> n \<and> n \<le> 13) \<or> n = 32 \<or> n = 133 \<or> n = 160)"

definition int_strip :: "string \<Rightarrow> string" where
  "int_strip v = rev (dropWhile int_isspace (rev (dropWhile int_isspace v)))"

text \<open>
  \<^verbatim>\<open>int(s)\<close> for a string: surrounding whitespace is dropped, one sign is allowed, the rest
  must be a decimal literal; \<open>None\<close> stands for the \<open>ValueError\<close>.
\<close>

definition py_int :: "string \<Rightarrow> int option" where
  "py_int v =
     (case int_strip v of
        [] \<Rightarrow> None
      | c # r \<Rightarrow>
          if c = CHR ''-'' then map_option (\<lambda>n. - int n) (py_digits r)
          else if c = CHR ''+'' then map_option int (py_digits r)
          else map_option int (py_digits (c # r)))"

section \<open>Bearer tokens\<close>

text \<open>
  JSON values as they occur in a token payload or a request body. Arrays and objects are
  kept without their contents, which no code path here inspects.
\<close>

datatype json = JNull | JBool bool | JInt int | JStr string | JArray | JObject

type_synonym payload = "(string \<times> json) list"

definition payload_get :: "payload \<Rightarrow> string \<Rightarrow> json option" where
  "payload_get p k = map_of p k"

text \<open>
  A token string is either not a well-formed compact JWS, or it carries a header algorithm,
  a payload, and a signature. The signature is represented by the key that produced it:
  it verifies under a key exactly when that key made it.
\<close>

datatype token =
    Malformed string
  | Signed (tok_alg: string) (tok_key: string) (tok_claims: payload)

datatype jose_error = JWTError | ExpiredSignatureError | JWTClaimsError

text \<open>
  What \<^verbatim>\<open>jwt.decode\<close> raises: one of the \<open>JWTError\<close> classes (the two others are its
  subclasses), or an exception of another class that passes through the library.
\<close>

datatype decode_exn = Jose jose_error | Other py_exception

text \<open>\<^verbatim>\<open>int(x)\<close> on a claim value, as the library applies it to \<open>exp\<close>, \<open>nbf\<close> and \<open>iat\<close>.\<close>

fun int_of_json :: "json \<Rightarrow> py_exception + int" where
  "int_of_json (JInt n) = Inr n"
| "int_of_json (JBool b) = Inr (if b then 1 else 0)"
| "int_of_json (JStr v) = (case py_int v of None \<Rightarrow> Inl ValueError | Some n \<Rightarrow> Inr n)"
| "int_of_json JNull = Inl TypeError"
| "int_of_json JArray = Inl TypeError"
| "int_of_json JObject = Inl TypeError"

definition numeric_claim :: "payload \<Rightarrow> string \<Rightarrow> decode_exn + int option" where
  "numeric_claim p k =
     (case payload_get p k of
        None \<Rightarrow> Inr None
      | Some v \<Rightarrow>
          (case int_of_json v of
             Inr n \<Rightarrow> Inr (Some n)
           | Inl ValueError \<Rightarrow> Inl (Jose JWTClaimsError)
           | Inl e \<Rightarrow> Inl (Other e)))"

definition is_str_or_absent :: "payload \<Rightarrow> string \<Rightarrow> bool" where
  "is_str_or_absent p k =
     (case payload_get p k of None \<Rightarrow> True | Some (JStr _) \<Rightarrow> True | Some _ \<Rightarrow> False)"

text \<open>
  The claim checks of \<^verbatim>\<open>jwt.decode\<close> under its default options and with no audience,
  issuer, subject or access token given, in the library's order: \<open>iat\<close>, \<open>nbf\<close>, \<open>exp\<close>,
  \<open>aud\<close>, \<open>sub\<close>, \<open>jti\<close>, \<open>at_hash\<close>. Each check returns the exception it raises, if
  any. \<open>now\<close> is the library's reading of the clock in seconds; there is no leeway.
\<close>

definition validate_iat :: "payload \<Rightarrow> decode_exn option" where
  "validate_iat p = (case numeric_claim p ''iat'' of Inl e \<Rightarrow> Some e | Inr _ \<Rightarrow> None)"

definition validate_nbf :: "int \<Rightarrow> payload \<Rightarrow> decode_exn option" where
  "validate_nbf now p =
     (case numeric_claim p ''nbf'' of
        Inl e \<Rightarrow> Some e
      | Inr None \<Rightarrow> None
      | Inr (Some nbf) \<Rightarrow> (if nbf > now then Some (Jose JWTClaimsError) else None))"

definition validate_exp :: "int \<Rightarrow> payload \<Rightarrow> decode_exn option" where
  "validate_exp now p =
     (case numeric_claim p ''exp'' of
        Inl e \<Rightarrow> Some e
      | Inr None \<Rightarrow> None
      | Inr (Some exp) \<Rightarrow> (if exp < now then Some (Jose ExpiredSignatureError) else None))"

definition validate_aud :: "payload \<Rightarrow> decode_exn option" where
  "validate_aud p = (if payload_get p ''aud'' = None then None else Some (Jose JWTClaimsError))"

definition validate_sub :: "payload \<Rightarrow> decode_exn option" where
  "validate_sub p = (if is_str_or_absent p ''sub'' then None else Some (Jose JWTClaimsError))"

definition validate_jti :: "payload \<Rightarrow> decode_exn option" where
  "validate_jti p = (if is_str_or_absent p ''jti'' then None else Some (Jose JWTClaimsError))"

definition validate_at_hash :: "payload \<Rightarrow> decode_exn option" where
  "validate_at_hash p =
     (if payload_get p ''at_hash'' = None then None else Some (Jose JWTClaimsError))"

fun first_raised :: "'e option list \<Rightarrow> 'e option" where
  "first_raised [] = None"
| "first_raised (None # r) = first_raised r"
| "first_raised (Some e # r) = Some e"

definition validate_claims :: "int \<Rightarrow> payload \<Rightarrow> decode_exn + payload" where
  "validate_claims now p =
     (case first_raised [validate_iat p, validate_nbf now p, validate_exp now p,
                         validate_aud p, validate_sub p, validate_jti p, validate_at_hash p] of
        Some e \<Rightarrow> Inl e
      | None \<Rightarrow> Inr p)"

definition jwt_decode :: "int \<Rightarrow> token \<Rightarrow> string \<Rightarrow> string list \<Rightarrow> decode_exn + payload" where
  "jwt_decode now tok key algorithms =
     (case tok of
        Malformed _ \<Rightarrow> Inl (Jose JWTError)
      | Signed alg k p \<Rightarrow>
          if alg \<notin> set algorithms then Inl (Jose JWTError)
          else if k \<noteq> key then Inl (Jose JWTError)
          else validate_claims now p)"

text \<open>
  The configuration fields both variants read when decoding; each variant adds its own
  token lifetime.
\<close>

record Settings =
  BETTER_AUTH_SECRET :: string
  JWT_ALGORITHM :: string

record TodoSettings = Settings +
  JWT_EXPIRE_MINUTES :: int

record BackendSettings = Settings +
  JWT_EXPIRY_DAYS :: int

text \<open>
  \<^verbatim>\<open>decode_jwt_token\<close> (UUID-keyed) and \<^verbatim>\<open>AuthService.decode_token\<close> (integer-keyed) have
  the same body: every \<open>JWTError\<close> becomes \<open>None\<close>, any other exception passes.
\<close>

definition decode_jwt_token :: "'a Settings_scheme \<Rightarrow> int \<Rightarrow> token \<Rightarrow> py_exception + payload option" where
  "decode_jwt_token settings now tok =
     (case jwt_decode now tok (BETTER_AUTH_SECRET settings) [JWT_ALGORITHM settings] of
        Inr p \<Rightarrow> Inr (Some p)
      | Inl (Jose _) \<Rightarrow> Inr None
      | Inl (Other e) \<Rightarrow> Inl e)"

definition decode_token :: "'a Settings_scheme \<Rightarrow> int \<Rightarrow> token \<Rightarrow> py_exception + payload option" where
  "decode_token settings now tok =
     (case jwt_decode now tok (BETTER_AUTH_SECRET settings) [JWT_ALGORITHM settings] of
        Inr p \<Rightarrow> Inr (Some p)
      | Inl (Jose _) \<Rightarrow> Inr None
      | Inl (Other e) \<Rightarrow> Inl e)"

section \<open>Credential hasher\<close>

text \<open>
  \<^verbatim>\<open>pwd_context = CryptContext(schemes=["bcrypt"])\<close>. \<^verbatim>\<open>pwd_context.verify\<close> first
  identifies the scheme of the digest by its prefix and raises \<open>UnknownHashError\<close> when no
  scheme of the context claims it; only then the bcrypt handler parses the digest and
  compares. The handler itself (parsing of cost and salt, the hash computation) is the
  parameter \<open>bcrypt\<close>, which may raise as well.
\<close>

definition bcrypt_identify :: "string \<Rightarrow> bool" where
  "bcrypt_identify h =
     list_ex (\<lambda>ident. take (length ident) h = ident)
       [''$2$'', ''$2a$'', ''$2x$'', ''$2y$'', ''$2b$'']"

definition pwd_context_verify ::
  "(string \<Rightarrow> string \<Rightarrow> py_exception + bool) \<Rightarrow> string \<Rightarrow> string \<Rightarrow> py_exception + bool" where
  "pwd_context_verify bcrypt secret h =
     (if bcrypt_identify h then bcrypt secret h else Inl UnknownHashError)"

text \<open>Both variants define \<^verbatim>\<open>verify_password\<close> as the bare call of the context.\<close>

definition verify_password ::
  "(string \<Rightarrow> string \<Rightarrow> py_exception + bool) \<Rightarrow> string \<Rightarrow> string \<Rightarrow> py_exception + bool" where
  "verify_password bcrypt plain_password hashed_password =
     pwd_context_verify bcrypt plain_password hashed_password"

text \<open>
  The \<^verbatim>\<open>verify\<close> of the bcrypt handler that the context calls on an identified digest. It
  refuses a password of more than 4096 characters, then parses the digest, then refuses a
  password that contains a NUL character, and only then computes and compares. The parsing
  of the digest (\<open>from_string_raises\<close>, the exception it raises if any) and the comparison of
  the computed hash with the stored one (\<open>consteq_checksum\<close>) stay parameters.
\<close>

definition bcrypt_verify ::
  "(string \<Rightarrow> py_exception option) \<Rightarrow> (string \<Rightarrow> string \<Rightarrow> bool) \<Rightarrow> string \<Rightarrow> string
     \<Rightarrow> py_exception + bool" where
  "bcrypt_verify from_string_raises consteq_checksum secret h =
     (if length secret > 4096 then Inl PasswordSizeError
      else
        (case from_string_raises h of
           Some e \<Rightarrow> Inl e
         | None \<Rightarrow>
             if CHR 0x00 \<in> set secret then Inl NullPasswordError
             else Inr (consteq_checksum secret h)))"

section \<open>UUID-keyed variant: dependency, schemas and routers\<close>

definition seconds :: "datetime \<Rightarrow> int" where
  "seconds t = t div 1000000"

text \<open>
  \<^verbatim>\<open>create_jwt_token\<close>: \<open>now1\<close> is the clock reading for \<open>exp\<close>, \<open>now2\<close> the one for \<open>iat\<close>;
  the encoder writes both as whole seconds.
\<close>

definition create_jwt_token :: "TodoSettings \<Rightarrow> datetime \<Rightarrow> datetime \<Rightarrow> uuid \<Rightarrow> string \<Rightarrow> token" where
  "create_jwt_token settings now1 now2 uid em =
     Signed (JWT_ALGORITHM settings) (BETTER_AUTH_SECRET settings)
       [(''sub'', JStr (str_uuid uid)),
        (''email'', JStr em),
        (''exp'', JInt (seconds (now1 + JWT_EXPIRE_MINUTES settings * 60 * 1000000))),
        (''iat'', JInt (seconds now2))]"

text \<open>
  \<^verbatim>\<open>get_current_user\<close> of \<^verbatim>\<open>app/dependencies.py\<close>. The query \<^verbatim>\<open>User.id == user_id\<close> compares
  the key with the subject text. A subject that is present but not a string cannot reach
  the query, since the decoder has refused it; the last branch is there for totality.
\<close>

definition get_current_user ::
  "'a Settings_scheme \<Rightarrow> int \<Rightarrow> Session \<Rightarrow> token \<Rightarrow> failure + User" where
  "get_current_user settings now s tok =
     (case jwt_decode now tok (BETTER_AUTH_SECRET settings) [JWT_ALGORITHM settings] of
        Inl (Jose _) \<Rightarrow> Inl (HTTPException HTTP_401_UNAUTHORIZED)
      | Inl (Other e) \<Rightarrow> Inl (Unhandled e)
      | Inr p \<Rightarrow>
          (case payload_get p ''sub'' of
             None \<Rightarrow> Inl (HTTPException HTTP_401_UNAUTHORIZED)
           | Some JNull \<Rightarrow> Inl (HTTPException HTTP_401_UNAUTHORIZED)
           | Some (JStr sub) \<Rightarrow>
               (case find (\<lambda>u. str_uuid (user_id_pk u) = sub) (users s) of
                  None \<Rightarrow> Inl (HTTPException HTTP_401_UNAUTHORIZED)
                | Some u \<Rightarrow> Inr u)
           | Some _ \<Rightarrow> Inl (HTTPException HTTP_401_UNAUTHORIZED)))"

text \<open>
  The request schemas of \<^verbatim>\<open>app/schemas/task.py\<close>, applied to the JSON object of the body.
  Keys the schema does not declare are ignored. The length bounds of \<^verbatim>\<open>Field\<close> are checked
  on the string as sent, before the validator strips it.
\<close>

definition validate_title_not_empty :: "string \<Rightarrow> failure + string" where
  "validate_title_not_empty v =
     (if strip v = [] then Inl RequestValidationError else Inr (strip v))"

definition parse_description :: "nat \<Rightarrow> payload \<Rightarrow> failure + string option field" where
  "parse_description max_length body =
     (case payload_get body ''description'' of
        None \<Rightarrow> Inr Unset
      | Some JNull \<Rightarrow> Inr (Given None)
      | Some (JStr d) \<Rightarrow>
          if length d > max_length then Inl RequestValidationError else Inr (Given (Some d))
      | Some _ \<Rightarrow> Inl RequestValidationError)"

definition field_value :: "'a option field \<Rightarrow> 'a option" where
  "field_value f = (case f of Unset \<Rightarrow> None | Given v \<Rightarrow> v)"

definition parse_TaskCreate :: "payload \<Rightarrow> failure + TaskCreate" where
  "parse_TaskCreate body =
     (case payload_get body ''title'' of
        Some (JStr v) \<Rightarrow>
          if length v < 1 \<or> length v > 255 then Inl RequestValidationError
          else
            (case validate_title_not_empty v of
               Inl e \<Rightarrow> Inl e
             | Inr t \<Rightarrow>
                 (case parse_description 2000 body of
                    Inl e \<Rightarrow> Inl e
                  | Inr d \<Rightarrow> Inr \<lparr>tc_title = t, tc_description = field_value d\<rparr>))
      | _ \<Rightarrow> Inl RequestValidationError)"

definition parse_update_title :: "payload \<Rightarrow> failure + string option field" where
  "parse_update_title body =
     (case payload_get body ''title'' of
        None \<Rightarrow> Inr Unset
      | Some JNull \<Rightarrow> Inr (Given None)
      | Some (JStr v) \<Rightarrow>
          if length v < 1 \<or> length v > 255 then Inl RequestValidationError
          else
            (case validate_title_not_empty v of
               Inl e \<Rightarrow> Inl e
             | Inr t \<Rightarrow> Inr (Given (Some t)))
      | Some _ \<Rightarrow> Inl RequestValidationError)"

definition validate_status :: "payload \<Rightarrow> failure + string option field" where
  "validate_status body =
     (case payload_get body ''status'' of
        None \<Rightarrow> Inr Unset
      | Some JNull \<Rightarrow> Inr (Given None)
      | Some (JStr v) \<Rightarrow>
          if length v > 50 then Inl RequestValidationError
          else if v \<notin> set [''pending'', ''completed''] then Inl RequestValidationError
          else Inr (Given (Some v))
      | Some _ \<Rightarrow> Inl RequestValidationError)"

definition parse_TaskUpdate :: "payload \<Rightarrow> failure + TaskUpdate" where
  "parse_TaskUpdate body =
     (case parse_update_title body of
        Inl e \<Rightarrow> Inl e
      | Inr t \<Rightarrow>
          (case parse_description 2000 body of
             Inl e \<Rightarrow> Inl e
           | Inr d \<Rightarrow>
               (case validate_status body of
                  Inl e \<Rightarrow> Inl e
                | Inr st \<Rightarrow> Inr \<lparr>tu_title = t, tu_description = d, tu_status = st\<rparr>)))"

text \<open>
  The handlers of \<^verbatim>\<open>app/routers/tasks.py\<close>. \<open>current_user\<close> is the value of the dependency;
  every handler first compares it with the owner named in the path.
\<close>

definition router_get_user_tasks :: "Session \<Rightarrow> uuid \<Rightarrow> User \<Rightarrow> failure + Task list" where
  "router_get_user_tasks s uid current_user =
     (if str_uuid (user_id_pk current_user) \<noteq> str_uuid uid
      then Inl (HTTPException HTTP_403_FORBIDDEN)
      else Inr (get_user_tasks s uid))"

definition router_create_task ::
  "Session \<Rightarrow> uuid \<Rightarrow> datetime \<Rightarrow> datetime \<Rightarrow> uuid \<Rightarrow> TaskCreate \<Rightarrow> User
     \<Rightarrow> failure + (Task \<times> Session)" where
  "router_create_task s new_id now1 now2 uid task_data current_user =
     (if str_uuid (user_id_pk current_user) \<noteq> str_uuid uid
      then Inl (HTTPException HTTP_403_FORBIDDEN)
      else Inr (create_task s new_id now1 now2 uid task_data))"

text \<open>
  The prologue shared by the five single-task handlers: path owner check, lookup by id,
  ownership of the row.
\<close>

definition load_owned_task :: "Session \<Rightarrow> uuid \<Rightarrow> uuid \<Rightarrow> User \<Rightarrow> failure + Task" where
  "load_owned_task s uid tid current_user =
     (if str_uuid (user_id_pk current_user) \<noteq> str_uuid uid
      then Inl (HTTPException HTTP_403_FORBIDDEN)
      else
        (case get_task_by_id s tid of
           None \<Rightarrow> Inl (HTTPException HTTP_404_NOT_FOUND)
         | Some task \<Rightarrow>
             if \<not> validate_task_ownership task uid
             then Inl (HTTPException HTTP_403_FORBIDDEN)
             else Inr task))"

definition router_get_task :: "Session \<Rightarrow> uuid \<Rightarrow> uuid \<Rightarrow> User \<Rightarrow> failure + Task" where
  "router_get_task s uid tid current_user = load_owned_task s uid tid current_user"

definition router_update_task ::
  "Session \<Rightarrow> datetime \<Rightarrow> uuid \<Rightarrow> uuid \<Rightarrow> TaskUpdate \<Rightarrow> User \<Rightarrow> failure + (Task \<times> Session)" where
  "router_update_task s now uid tid task_data current_user =
     (case load_owned_task s uid tid current_user of
        Inl e \<Rightarrow> Inl e
      | Inr task \<Rightarrow> update_task s now task task_data)"

definition router_partial_update_task ::
  "Session \<Rightarrow> datetime \<Rightarrow> uuid \<Rightarrow> uuid \<Rightarrow> TaskUpdate \<Rightarrow> User \<Rightarrow> failure + (Task \<times> Session)" where
  "router_partial_update_task s now uid tid task_data current_user =
     (case load_owned_task s uid tid current_user of
        Inl e \<Rightarrow> Inl e
      | Inr task \<Rightarrow> update_task s now task task_data)"

definition router_toggle_task_completion ::
  "Session \<Rightarrow> datetime \<Rightarrow> uuid \<Rightarrow> uuid \<Rightarrow> User \<Rightarrow> failure + (Task \<times> Session)" where
  "router_toggle_task_completion s now uid tid current_user =
     (case load_owned_task s uid tid current_user of
        Inl e \<Rightarrow> Inl e
      | Inr task \<Rightarrow> Inr (toggle_task_completion s now task))"

definition router_delete_task :: "Session \<Rightarrow> uuid \<Rightarrow> uuid \<Rightarrow> User \<Rightarrow> failure + Session" where
  "router_delete_task s uid tid current_user =
     (case load_owned_task s uid tid current_user of
        Inl e \<Rightarrow> Inl e
      | Inr task \<Rightarrow> Inr (delete_task s task))"

text \<open>
  The two endpoints whose whole request matters below: the dependency runs first, then the
  body is validated, then the handler.
\<close>

definition endpoint_get_user_tasks ::
  "'a Settings_scheme \<Rightarrow> int \<Rightarrow> Session \<Rightarrow> token \<Rightarrow> uuid \<Rightarrow> failure + Task list" where
  "endpoint_get_user_tasks settings now s tok uid =
     (case get_current_user settings now s tok of
        Inl e \<Rightarrow> Inl e
      | Inr current_user \<Rightarrow> router_get_user_tasks s uid current_user)"

definition endpoint_create_task ::
  "'a Settings_scheme \<Rightarrow> int \<Rightarrow> Session \<Rightarrow> token \<Rightarrow> uuid \<Rightarrow> datetime \<Rightarrow> datetime \<Rightarrow> uuid
     \<Rightarrow> payload \<Rightarrow> failure + (Task \<times> Session)" where
  "endpoint_create_task settings now s tok new_id now1 now2 uid body =
     (case get_current_user settings now s tok of
        Inl e \<Rightarrow> Inl e
      | Inr current_user \<Rightarrow>
          (case parse_TaskCreate body of
             Inl e \<Rightarrow> Inl e
           | Inr task_data \<Rightarrow> router_create_task s new_id now1 now2 uid task_data current_user))"

text \<open>\<^verbatim>\<open>signin\<close> of \<^verbatim>\<open>app/routers/auth.py\<close>; \<^verbatim>\<open>or\<close> does not call the hasher for an unknown email.\<close>

record TokenResponse =
  tr_user_id :: string
  tr_email :: string
  tr_token :: token

definition signin ::
  "(string \<Rightarrow> string \<Rightarrow> py_exception + bool) \<Rightarrow> TodoSettings \<Rightarrow> datetime \<Rightarrow> datetime \<Rightarrow> Session
     \<Rightarrow> string \<Rightarrow> string \<Rightarrow> failure + TokenResponse" where
  "signin bcrypt settings now1 now2 s em password =
     (case find (\<lambda>u. email u = em) (users s) of
        None \<Rightarrow> Inl (HTTPException HTTP_401_UNAUTHORIZED)
      | Some user \<Rightarrow>
          (case verify_password bcrypt password (password_hash user) of
             Inl e \<Rightarrow> Inl (Unhandled e)
           | Inr False \<Rightarrow> Inl (HTTPException HTTP_401_UNAUTHORIZED)
           | Inr True \<Rightarrow>
               Inr \<lparr>tr_user_id = str_uuid (user_id_pk user), tr_email = email user,
                    tr_token = create_jwt_token settings now1 now2 (user_id_pk user) (email user)\<rparr>))"

text \<open>\<^verbatim>\<open>str(n)\<close> for an integer: decimal digits, with a minus sign when negative.\<close>

fun show_nat :: "nat \<Rightarrow> string" where
  "show_nat n =
     (if n < 10 then [char_of (48 + n)]
      else show_nat (n div 10) @ [char_of (48 + n mod 10)])"

declare show_nat.simps [simp del]

definition show_int :: "int \<Rightarrow> string" where
  "show_int i = (if i < 0 then CHR ''-'' # show_nat (nat (- i)) else show_nat (nat i))"

section \<open>Integer-keyed variant\<close>

record BUser =
  bu_id :: int
  bu_email :: string
  bu_password_hash :: string
  bu_created_at :: datetime

record BTask =
  b_id :: int
  b_user_id :: int
  b_title :: string
  b_description :: "string option"
  b_completed :: bool
  b_created_at :: datetime
  b_updated_at :: datetime

record BSession =
  b_users :: "BUser list"
  b_tasks :: "BTask list"

record BTaskCreate =
  btc_title :: string
  btc_description :: "string option"

record BTaskUpdate =
  btu_title :: "string option field"
  btu_description :: "string option field"
  btu_completed :: "bool option field"

definition b_commit_task :: "BSession \<Rightarrow> BTask \<Rightarrow> BSession" where
  "b_commit_task s t =
     s\<lparr>b_tasks := map (\<lambda>r. if b_id r = b_id t then t else r) (b_tasks s)\<rparr>"

definition b_insert_task :: "BSession \<Rightarrow> BTask \<Rightarrow> BSession" where
  "b_insert_task s t = s\<lparr>b_tasks := b_tasks s @ [t]\<rparr>"

text \<open>The schema \<^verbatim>\<open>TaskCreate\<close> of \<^verbatim>\<open>models/task.py\<close>: a length bound, no validator.\<close>

definition parse_BTaskCreate :: "payload \<Rightarrow> failure + BTaskCreate" where
  "parse_BTaskCreate body =
     (case payload_get body ''title'' of
        Some (JStr v) \<Rightarrow>
          if length v > 255 then Inl RequestValidationError
          else
            (case parse_description 1000 body of
               Inl e \<Rightarrow> Inl e
             | Inr d \<Rightarrow> Inr \<lparr>btc_title = v, btc_description = field_value d\<rparr>)
      | _ \<Rightarrow> Inl RequestValidationError)"

text \<open>The \<open>title\<close> field of the schema \<^verbatim>\<open>TaskUpdate\<close> of \<^verbatim>\<open>models/task.py\<close>.\<close>

definition parse_b_update_title :: "payload \<Rightarrow> failure + string option field" where
  "parse_b_update_title body =
     (case payload_get body ''title'' of
        None \<Rightarrow> Inr Unset
      | Some JNull \<Rightarrow> Inr (Given None)
      | Some (JStr v) \<Rightarrow>
          if length v > 255 then Inl RequestValidationError else Inr (Given (Some v))
      | Some _ \<Rightarrow> Inl RequestValidationError)"

definition TaskService_get_tasks_by_user :: "BSession \<Rightarrow> int \<Rightarrow> bool option \<Rightarrow> BTask list" where
  "TaskService_get_tasks_by_user s uid completed =
     rev (sort_key b_created_at
       (filter (\<lambda>t. b_user_id t = uid
                  \<and> (case completed of None \<Rightarrow> True | Some c \<Rightarrow> b_completed t = c))
          (b_tasks s)))"

definition TaskService_get_task_by_id :: "BSession \<Rightarrow> int \<Rightarrow> int \<Rightarrow> BTask option" where
  "TaskService_get_task_by_id s tid uid =
     (case find (\<lambda>t. b_id t = tid) (b_tasks s) of
        Some task \<Rightarrow> if b_user_id task = uid then Some task else None
      | None \<Rightarrow> None)"

text \<open>
  \<^verbatim>\<open>TaskService.create_task\<close>: the constructor fills \<open>completed\<close> with its default and calls
  the two \<^verbatim>\<open>default_factory=datetime.utcnow\<close> in field order; \<open>new_id\<close> is the key the table
  assigns.
\<close>

definition TaskService_create_task ::
  "BSession \<Rightarrow> int \<Rightarrow> datetime \<Rightarrow> datetime \<Rightarrow> int \<Rightarrow> BTaskCreate \<Rightarrow> BTask \<times> BSession" where
  "TaskService_create_task s new_id now1 now2 uid task_data =
     (let task = \<lparr>b_id = new_id, b_user_id = uid, b_title = btc_title task_data,
                  b_description = btc_description task_data, b_completed = False,
                  b_created_at = now1, b_updated_at = now2\<rparr>
      in (task, b_insert_task s task))"

text \<open>
  \<^verbatim>\<open>TaskService.update_task\<close>; \<open>None\<close> is the \<^verbatim>\<open>return None\<close> of the source. The columns
  \<open>title\<close> and \<open>completed\<close> are non-nullable.
\<close>

definition TaskService_update_task ::
  "BSession \<Rightarrow> datetime \<Rightarrow> int \<Rightarrow> int \<Rightarrow> BTaskUpdate \<Rightarrow> failure + (BTask \<times> BSession) option" where
  "TaskService_update_task s now tid uid task_data =
     (case TaskService_get_task_by_id s tid uid of
        None \<Rightarrow> Inr None
      | Some task \<Rightarrow>
          if btu_title task_data = Given None \<or> btu_completed task_data = Given None
          then Inl (Unhandled IntegrityError)
          else
            let t1 = (case btu_title task_data of Given (Some v) \<Rightarrow> task\<lparr>b_title := v\<rparr> | _ \<Rightarrow> task);
                t2 = (case btu_description task_data of
                        Given v \<Rightarrow> t1\<lparr>b_description := v\<rparr> | Unset \<Rightarrow> t1);
                t3 = (case btu_completed task_data of
                        Given (Some v) \<Rightarrow> t2\<lparr>b_completed := v\<rparr> | _ \<Rightarrow> t2);
                t4 = t3\<lparr>b_updated_at := now\<rparr>
            in Inr (Some (t4, b_commit_task s t4)))"

definition TaskService_delete_task :: "BSession \<Rightarrow> int \<Rightarrow> int \<Rightarrow> bool \<times> BSession" where
  "TaskService_delete_task s tid uid =
     (case TaskService_get_task_by_id s tid uid of
        None \<Rightarrow> (False, s)
      | Some task \<Rightarrow> (True, s\<lparr>b_tasks := filter (\<lambda>r. b_id r \<noteq> b_id task) (b_tasks s)\<rparr>))"

definition TaskService_toggle_task_completion ::
  "BSession \<Rightarrow> datetime \<Rightarrow> int \<Rightarrow> int \<Rightarrow> (BTask \<times> BSession) option" where
  "TaskService_toggle_task_completion s now tid uid =
     (case TaskService_get_task_by_id s tid uid of
        None \<Rightarrow> None
      | Some task \<Rightarrow>
          let t1 = task\<lparr>b_completed := \<not> b_completed task\<rparr>;
              t2 = t1\<lparr>b_updated_at := now\<rparr>
          in Some (t2, b_commit_task s t2))"

text \<open>
  \<^verbatim>\<open>get_current_user\<close> of \<^verbatim>\<open>api/dependencies.py\<close>. \<^verbatim>\<open>not payload\<close> holds for \<open>None\<close> and
  for the empty dictionary. \<^verbatim>\<open>int(payload.get("sub"))\<close> is outside any \<^verbatim>\<open>try\<close>.
\<close>

definition api_get_current_user ::
  "'a Settings_scheme \<Rightarrow> int \<Rightarrow> BSession \<Rightarrow> token \<Rightarrow> failure + BUser" where
  "api_get_current_user settings now s tok =
     (case decode_token settings now tok of
        Inl e \<Rightarrow> Inl (Unhandled e)
      | Inr None \<Rightarrow> Inl (HTTPException HTTP_401_UNAUTHORIZED)
      | Inr (Some p) \<Rightarrow>
          if p = [] then Inl (HTTPException HTTP_401_UNAUTHORIZED)
          else
            (case (case payload_get p ''sub'' of
                     None \<Rightarrow> Inl TypeError
                   | Some v \<Rightarrow> int_of_json v) of
               Inl e \<Rightarrow> Inl (Unhandled e)
             | Inr uid \<Rightarrow>
                 (case find (\<lambda>u. bu_id u = uid) (b_users s) of
                    None \<Rightarrow> Inl (HTTPException HTTP_401_UNAUTHORIZED)
                  | Some user \<Rightarrow> Inr user)))"

text \<open>The handlers of \<^verbatim>\<open>api/routes/tasks.py\<close>.\<close>

definition api_list_tasks :: "BSession \<Rightarrow> BUser \<Rightarrow> bool option \<Rightarrow> BTask list" where
  "api_list_tasks s current_user completed =
     TaskService_get_tasks_by_user s (bu_id current_user) completed"

definition api_create_task ::
  "BSession \<Rightarrow> int \<Rightarrow> datetime \<Rightarrow> datetime \<Rightarrow> BTaskCreate \<Rightarrow> BUser \<Rightarrow> BTask \<times> BSession" where
  "api_create_task s new_id now1 now2 task_data current_user =
     TaskService_create_task s new_id now1 now2 (bu_id current_user) task_data"

definition api_get_task :: "BSession \<Rightarrow> int \<Rightarrow> BUser \<Rightarrow> failure + BTask" where
  "api_get_task s tid current_user =
     (case TaskService_get_task_by_id s tid (bu_id current_user) of
        None \<Rightarrow> Inl (HTTPException HTTP_404_NOT_FOUND)
      | Some task \<Rightarrow> Inr task)"

definition api_update_task ::
  "BSession \<Rightarrow> datetime \<Rightarrow> int \<Rightarrow> BTaskUpdate \<Rightarrow> BUser \<Rightarrow> failure + (BTask \<times> BSession)" where
  "api_update_task s now tid task_data current_user =
     (case TaskService_update_task s now tid (bu_id current_user) task_data of
        Inl e \<Rightarrow> Inl e
      | Inr None \<Rightarrow> Inl (HTTPException HTTP_404_NOT_FOUND)
      | Inr (Some r) \<Rightarrow> Inr r)"

definition api_delete_task :: "BSession \<Rightarrow> int \<Rightarrow> BUser \<Rightarrow> failure + BSession" where
  "api_delete_task s tid current_user =
     (case TaskService_delete_task s tid (bu_id current_user) of
        (deleted, s') \<Rightarrow>
          if \<not> deleted then Inl (HTTPException HTTP_404_NOT_FOUND) else Inr s')"

definition api_toggle_task_completion ::
  "BSession \<Rightarrow> datetime \<Rightarrow> int \<Rightarrow> BUser \<Rightarrow> failure + (BTask \<times> BSession)" where
  "api_toggle_task_completion s now tid current_user =
     (case TaskService_toggle_task_completion s now tid (bu_id current_user) of
        None \<Rightarrow> Inl (HTTPException HTTP_404_NOT_FOUND)
      | Some r \<Rightarrow> Inr r)"

definition endpoint_api_create_task ::
  "'a Settings_scheme \<Rightarrow> int \<Rightarrow> BSession \<Rightarrow> token \<Rightarrow> int \<Rightarrow> datetime \<Rightarrow> datetime \<Rightarrow> payload
     \<Rightarrow> failure + (BTask \<times> BSession)" where
  "endpoint_api_create_task settings now s tok new_id now1 now2 body =
     (case api_get_current_user settings now s tok of
        Inl e \<Rightarrow> Inl e
      | Inr current_user \<Rightarrow>
          (case parse_BTaskCreate body of
             Inl e \<Rightarrow> Inl e
           | Inr task_data \<Rightarrow> Inr (api_create_task s new_id now1 now2 task_data current_user)))"

text \<open>\<^verbatim>\<open>AuthService.authenticate_user\<close> and the \<^verbatim>\<open>login\<close> route.\<close>

definition create_access_token :: "BackendSettings \<Rightarrow> datetime \<Rightarrow> int \<Rightarrow> string \<Rightarrow> token" where
  "create_access_token settings now uid em =
     Signed (JWT_ALGORITHM settings) (BETTER_AUTH_SECRET settings)
       [(''sub'', JStr (show_int uid)),
        (''email'', JStr em),
        (''exp'', JInt (seconds (now + JWT_EXPIRY_DAYS settings * 86400 * 1000000)))]"

definition AuthService_authenticate_user ::
  "(string \<Rightarrow> string \<Rightarrow> py_exception + bool) \<Rightarrow> BSession \<Rightarrow> string \<Rightarrow> string
     \<Rightarrow> py_exception + BUser option" where
  "AuthService_authenticate_user bcrypt s em password =
     (case find (\<lambda>u. bu_email u = em) (b_users s) of
        None \<Rightarrow> Inr None
      | Some user \<Rightarrow>
          (case verify_password bcrypt password (bu_password_hash user) of
             Inl e \<Rightarrow> Inl e
           | Inr False \<Rightarrow> Inr None
           | Inr True \<Rightarrow> Inr (Some user)))"

record LoginResponse =
  access_token :: token
  token_type :: string
  lr_id :: int
  lr_email :: string
  lr_created_at :: datetime

definition login ::
  "(string \<Rightarrow> string \<Rightarrow> py_exception + bool) \<Rightarrow> BackendSettings \<Rightarrow> datetime \<Rightarrow> BSession
     \<Rightarrow> string \<Rightarrow> string \<Rightarrow> failure + LoginResponse" where
  "login bcrypt settings now s em password =
     (case AuthService_authenticate_user bcrypt s em password of
        Inl e \<Rightarrow> Inl (Unhandled e)
      | Inr None \<Rightarrow> Inl (HTTPException HTTP_401_UNAUTHORIZED)
      | Inr (Some user) \<Rightarrow>
          Inr \<lparr>access_token = create_access_token settings now (bu_id user) (bu_email user),
               token_type = ''bearer'', lr_id = bu_id user, lr_email = bu_email user,
               lr_created_at = bu_created_at user\<rparr>)"

section \<open>The two-state completion flag\<close>

text \<open>
  The UUID-keyed variant stores the flag as text; the data model allows the two values
  \<open>pending\<close> and \<open>completed\<close>.
\<close>

definition two_state :: "Task \<Rightarrow> bool" where
  "two_state t = (status t = ''pending'' \<or> status t = ''completed'')"

section \<open>Example states\<close>

text \<open>
  Concrete values at which the properties below are instantiated: two users per variant,
  one task owned by the first of them, and a stand-in for the bcrypt handler that accepts
  a digest exactly when it is the prefix \<open>$2b$\<close> followed by the password.
\<close>

definition ex_settings :: TodoSettings where
  "ex_settings =
     \<lparr>BETTER_AUTH_SECRET = ''secret'', JWT_ALGORITHM = ''HS256'', JWT_EXPIRE_MINUTES = 60\<rparr>"

definition ex_bsettings :: BackendSettings where
  "ex_bsettings =
     \<lparr>BETTER_AUTH_SECRET = ''secret'', JWT_ALGORITHM = ''HS256'', JWT_EXPIRY_DAYS = 7\<rparr>"

definition ex_bcrypt :: "string \<Rightarrow> string \<Rightarrow> py_exception + bool" where
  "ex_bcrypt secret h = Inr (h = ''$2b$'' @ secret)"

definition alice :: User where
  "alice = \<lparr>user_id_pk = UUID ''a1'', email = ''a@x.com'',
            password_hash = ''$2b$Abc12345'', user_created_at = 5\<rparr>"

definition bob :: User where
  "bob = \<lparr>user_id_pk = UUID ''b2'', email = ''b@x.com'',
          password_hash = ''$2b$Xyz98765'', user_created_at = 6\<rparr>"

definition ex_task :: Task where
  "ex_task = \<lparr>task_id = UUID ''t1'', user_id = UUID ''a1'', title = ''x'', description = None,
              status = ''pending'', created_at = 10, updated_at = 10\<rparr>"

definition ex_session :: Session where
  "ex_session = \<lparr>users = [alice, bob], tasks = [ex_task]\<rparr>"

definition b_alice :: BUser where
  "b_alice = \<lparr>bu_id = 1, bu_email = ''a@x.com'', bu_password_hash = ''$2b$Abc12345'',
              bu_created_at = 5\<rparr>"

definition b_bob :: BUser where
  "b_bob = \<lparr>bu_id = 2, bu_email = ''b@x.com'', bu_password_hash = ''$2b$Xyz98765'',
            bu_created_at = 6\<rparr>"

definition ex_btask :: BTask where
  "ex_btask = \<lparr>b_id = 1, b_user_id = 1, b_title = ''x'', b_description = None,
               b_completed = False, b_created_at = 10, b_updated_at = 10\<rparr>"

definition ex_bsession :: BSession where
  "ex_bsession = \<lparr>b_users = [b_alice, b_bob], b_tasks = [ex_btask]\<rparr>"

definition empty_update :: TaskUpdate where
  "empty_update = \<lparr>tu_title = Unset, tu_description = Unset, tu_status = Unset\<rparr>"

definition b_empty_update :: BTaskUpdate where
  "b_empty_update = \<lparr>btu_title = Unset, btu_description = Unset, btu_completed = Unset\<rparr>"

definition ex_create :: TaskCreate where
  "ex_create = \<lparr>tc_title = ''x'', tc_description = None\<rparr>"

definition ex_create_body :: payload where
  "ex_create_body =
     [(''title'', JStr ''x''), (''status'', JStr ''completed''), (''user_id'', JStr ''b2''),
      (''created_at'', JInt 0), (''updated_at'', JInt 0)]"

definition ex_created :: Task where
  "ex_created = \<lparr>task_id = UUID ''t2'', user_id = UUID ''a1'', title = ''x'',
                 description = None, status = ''pending'', created_at = 100,
                 updated_at = 101\<rparr>"

definition ex_bcreated :: BTask where
  "ex_bcreated = \<lparr>b_id = 2, b_user_id = 1, b_title = ''x'', b_description = None,
                  b_completed = False, b_created_at = 100, b_updated_at = 101\<rparr>"

definition ex_blank_body :: payload where
  "ex_blank_body = [(''title'', JStr ''   '')]"

definition ex_padded_body :: payload where
  "ex_padded_body = [(''title'', JStr ''  x '')]"

definition ex_token_alice :: token where
  "ex_token_alice = Signed ''HS256'' ''secret'' [(''sub'', JStr ''a1''), (''exp'', JInt 100)]"

definition ex_token_bob :: token where
  "ex_token_bob = Signed ''HS256'' ''secret'' [(''sub'', JStr ''b2''), (''exp'', JInt 100)]"

definition ex_btoken_alice :: token where
  "ex_btoken_alice = Signed ''HS256'' ''secret'' [(''sub'', JStr ''1''), (''exp'', JInt 100)]"

definition ex_btoken_empty :: token where
  "ex_btoken_empty = Signed ''HS256'' ''secret'' []"

definition ex_btoken_no_sub :: token where
  "ex_btoken_no_sub = Signed ''HS256'' ''secret'' [(''exp'', JInt 100)]"

definition ex_btoken_uuid_sub :: token where
  "ex_btoken_uuid_sub = Signed ''HS256'' ''secret'' [(''sub'', JStr ''a1''), (''exp'', JInt 100)]"

definition ex_btoken_fs_sub :: token where
  "ex_btoken_fs_sub =
     Signed ''HS256'' ''secret'' [(''sub'', JStr [CHR 0x1C, CHR ''1'']), (''exp'', JInt 100)]"

definition ex_handler :: "string \<Rightarrow> string \<Rightarrow> py_exception + bool" where
  "ex_handler = bcrypt_verify (\<lambda>h. None) (\<lambda>secret h. h = ''$2b$'' @ secret)"

definition ex_token_null_iat :: token where
  "ex_token_null_iat =
     Signed ''HS256'' ''secret'' [(''sub'', JStr ''a1''), (''iat'', JNull), (''exp'', JInt 100)]"

lemmas jwt_defs =
  jwt_decode_def validate_claims_def validate_iat_def validate_nbf_def validate_exp_def
  validate_aud_def validate_sub_def validate_jti_def validate_at_hash_def numeric_claim_def
  payload_get_def is_str_or_absent_def

lemmas example_defs =
  ex_settings_def ex_bsettings_def ex_bcrypt_def alice_def bob_def ex_task_def ex_session_def
  b_alice_def b_bob_def ex_btask_def ex_bsession_def empty_update_def b_empty_update_def
  ex_token_alice_def ex_token_bob_def ex_btoken_alice_def
  ex_create_def ex_create_body_def ex_created_def ex_bcreated_def
  ex_blank_body_def ex_padded_body_def
  ex_btoken_empty_def ex_btoken_no_sub_def ex_btoken_uuid_sub_def ex_btoken_fs_sub_def
  ex_handler_def ex_token_null_iat_def

section \<open>Rows and lookups\<close>

lemma find_SomeD: "find P xs = Some x \<Longrightarrow> P x"
  by (induction xs) (auto split: if_splits)

lemma find_replace:
  "find (\<lambda>r. f r = f t) xs = Some t0 \<Longrightarrow>
   find (\<lambda>r. f r = f t) (map (\<lambda>r. if f r = f t then t else r) xs) = Some t"
  by (induction xs) (auto split: if_splits)

lemma get_task_by_id_commit:
  "get_task_by_id s (task_id t) = Some t0 \<Longrightarrow> get_task_by_id (commit_task s t) (task_id t) = Some t"
  unfolding get_task_by_id_def commit_task_def
  by (simp add: find_replace)

lemma b_find_commit:
  "find (\<lambda>r. b_id r = b_id t) (b_tasks s) = Some t0 \<Longrightarrow>
   find (\<lambda>r. b_id r = b_id t) (b_tasks (b_commit_task s t)) = Some t"
  unfolding b_commit_task_def
  by (simp add: find_replace)

section \<open>Cross-owner access to a single task\<close>

lemma integer_variant_cross_owner:
  assumes "find (\<lambda>t. b_id t = tid) (b_tasks s) = Some task"
    and "b_user_id task \<noteq> bu_id caller"
  shows "TaskService_get_task_by_id s tid (bu_id caller) = None
       \<and> api_get_task s tid caller = Inl (HTTPException 404)
       \<and> api_update_task s now tid task_data caller = Inl (HTTPException 404)
       \<and> api_delete_task s tid caller = Inl (HTTPException 404)
       \<and> api_toggle_task_completion s now tid caller = Inl (HTTPException 404)"
  using assms
  by (simp add: TaskService_get_task_by_id_def api_get_task_def api_update_task_def
      api_delete_task_def api_toggle_task_completion_def TaskService_update_task_def
      TaskService_delete_task_def TaskService_toggle_task_completion_def
      HTTP_404_NOT_FOUND_def)

lemma uuid_variant_cross_owner:
  assumes "get_task_by_id s tid = Some task"
    and "user_id task \<noteq> user_id_pk caller"
  shows "router_get_task s uid tid caller = Inl (HTTPException 403)
       \<and> router_update_task s now uid tid task_data caller = Inl (HTTPException 403)
       \<and> router_partial_update_task s now uid tid task_data caller = Inl (HTTPException 403)
       \<and> router_delete_task s uid tid caller = Inl (HTTPException 403)
       \<and> router_toggle_task_completion s now uid tid caller = Inl (HTTPException 403)"
proof -
  have "load_owned_task s uid tid caller = Inl (HTTPException 403)"
    using assms
    by (cases uid; cases "user_id_pk caller")
       (auto simp: load_owned_task_def validate_task_ownership_def HTTP_403_FORBIDDEN_def)
  then show ?thesis
    by (simp add: router_get_task_def router_update_task_def router_partial_update_task_def
        router_delete_task_def router_toggle_task_completion_def)
qed

text \<open>
  Claim C9. In the integer-keyed variant, a get, update, delete or toggle of a task that
  exists but belongs to another user than the caller finds nothing
  (\<open>TaskService.get_task_by_id\<close> returns \<open>None\<close>) and the request ends in 404, not 403. In
  the UUID-keyed variant the same situation ends in 403, whatever owner the path names.
\<close>

theorem cross_owner_404_integer_403_uuid:
  assumes "find (\<lambda>t. b_id t = btid) (b_tasks bs) = Some btask"
    and "b_user_id btask \<noteq> bu_id bcaller"
    and "get_task_by_id s tid = Some task"
    and "user_id task \<noteq> user_id_pk caller"
  shows "(TaskService_get_task_by_id bs btid (bu_id bcaller) = None
          \<and> api_get_task bs btid bcaller = Inl (HTTPException 404)
          \<and> api_update_task bs now btid bdata bcaller = Inl (HTTPException 404)
          \<and> api_delete_task bs btid bcaller = Inl (HTTPException 404)
          \<and> api_toggle_task_completion bs now btid bcaller = Inl (HTTPException 404))
       \<and> (router_get_task s uid tid caller = Inl (HTTPException 403)
          \<and> router_update_task s now uid tid data caller = Inl (HTTPException 403)
          \<and> router_partial_update_task s now uid tid data caller = Inl (HTTPException 403)
          \<and> router_delete_task s uid tid caller = Inl (HTTPException 403)
          \<and> router_toggle_task_completion s now uid tid caller = Inl (HTTPException 403))"
  using integer_variant_cross_owner [OF assms(1,2)] uuid_variant_cross_owner [OF assms(3,4)]
  by blast

theorem cross_owner_404_integer_403_uuid_witness:
  "find (\<lambda>t. b_id t = 1) (b_tasks ex_bsession) = Some ex_btask
   \<and> b_user_id ex_btask \<noteq> bu_id b_bob
   \<and> get_task_by_id ex_session (UUID ''t1'') = Some ex_task
   \<and> user_id ex_task \<noteq> user_id_pk bob
   \<and> api_get_task ex_bsession 1 b_bob = Inl (HTTPException 404)
   \<and> api_delete_task ex_bsession 1 b_bob = Inl (HTTPException 404)
   \<and> router_get_task ex_session (UUID ''b2'') (UUID ''t1'') bob = Inl (HTTPException 403)
   \<and> router_delete_task ex_session (UUID ''a1'') (UUID ''t1'') bob = Inl (HTTPException 403)"
proof -
  have h1: "find (\<lambda>t. b_id t = 1) (b_tasks ex_bsession) = Some ex_btask"
    by (simp add: example_defs)
  have h2: "b_user_id ex_btask \<noteq> bu_id b_bob"
    by (simp add: example_defs)
  have h3: "get_task_by_id ex_session (UUID ''t1'') = Some ex_task"
    by (simp add: example_defs get_task_by_id_def)
  have h4: "user_id ex_task \<noteq> user_id_pk bob"
    by (simp add: example_defs)
  note c1 = cross_owner_404_integer_403_uuid [OF h1 h2 h3 h4, of 0 b_empty_update "UUID ''b2''" empty_update]
  note c2 = cross_owner_404_integer_403_uuid [OF h1 h2 h3 h4, of 0 b_empty_update "UUID ''a1''" empty_update]
  from h1 h2 h3 h4 c1 c2 show ?thesis by blast
qed

section \<open>Toggling completion\<close>

text \<open>
  Every operation of the UUID-keyed service leaves the flag in one of its two states:
  creation writes \<open>pending\<close>, the update schema admits only the two values, and a toggle
  writes one of them.
\<close>

lemma create_task_two_state: "two_state (fst (create_task s new_id now1 now2 uid task_data))"
  by (simp add: create_task_def two_state_def Let_def)

lemma toggle_task_completion_two_state: "two_state (fst (toggle_task_completion s now task))"
  by (simp add: toggle_task_completion_def two_state_def Let_def)

lemma validate_status_allowed:
  "validate_status body = Inr (Given (Some v)) \<Longrightarrow> v = ''pending'' \<or> v = ''completed''"
  by (auto simp: validate_status_def split: option.splits json.splits if_splits)

lemma update_task_two_state:
  assumes "parse_TaskUpdate body = Inr task_data"
    and "update_task s now task task_data = Inr (task', s')"
    and "two_state task"
  shows "two_state task'"
proof -
  from assms(1) have st: "validate_status body = Inr (tu_status task_data)"
    by (auto simp: parse_TaskUpdate_def split: sum.splits)
  show ?thesis
  proof (cases "tu_status task_data")
    case Unset
    with assms(2,3) show ?thesis
      by (auto simp: update_task_def two_state_def Let_def split: if_splits field.splits option.splits)
  next
    case (Given x)
    show ?thesis
    proof (cases x)
      case None
      with Given assms(2) show ?thesis by (simp add: update_task_def)
    next
      case (Some v)
      with Given st have "v = ''pending'' \<or> v = ''completed''"
        by (simp add: validate_status_allowed)
      with Given Some assms(2) show ?thesis
        by (auto simp: update_task_def two_state_def Let_def split: if_splits field.splits option.splits)
    qed
  qed
qed

lemma uuid_toggle_twice:
  assumes "get_task_by_id s tid = Some t0"
    and "user_id t0 = user_id_pk caller"
    and "uid = user_id_pk caller"
    and "two_state t0"
  shows "\<exists>t1 s1 t2 s2.
           router_toggle_task_completion s n1 uid tid caller = Inr (t1, s1)
         \<and> router_toggle_task_completion s1 n2 uid tid caller = Inr (t2, s2)
         \<and> status t1 = (if status t0 = ''pending'' then ''completed'' else ''pending'')
         \<and> t2 = t0\<lparr>updated_at := n2\<rparr>"
proof -
  define t1 where "t1 = (if status t0 = ''completed'' then t0\<lparr>status := ''pending''\<rparr>
                else t0\<lparr>status := ''completed''\<rparr>)\<lparr>updated_at := n1\<rparr>"
  define s1 where "s1 = commit_task s t1"
  have flag: "status t0 = ''pending'' \<or> status t0 = ''completed''"
    using assms(4) by (simp add: two_state_def)
  have id0: "task_id t0 = tid"
    using assms(1) unfolding get_task_by_id_def by (rule find_SomeD)
  have load0: "load_owned_task s uid tid caller = Inr t0"
    using assms(1,2,3) by (simp add: load_owned_task_def validate_task_ownership_def)
  have r1: "router_toggle_task_completion s n1 uid tid caller = Inr (t1, s1)"
    by (simp add: router_toggle_task_completion_def load0 toggle_task_completion_def
        t1_def s1_def Let_def)
  have id1: "task_id t1 = tid" and own1: "user_id t1 = user_id_pk caller"
    using id0 assms(2) by (simp_all add: t1_def)
  have "get_task_by_id s1 tid = Some t1"
    using get_task_by_id_commit [of s t1 t0] assms(1) by (simp add: s1_def id1)
  then have load1: "load_owned_task s1 uid tid caller = Inr t1"
    using own1 assms(3) by (simp add: load_owned_task_def validate_task_ownership_def)
  have st1: "status t1 = (if status t0 = ''pending'' then ''completed'' else ''pending'')"
    using flag by (auto simp: t1_def)
  define t2 where "t2 = (if status t1 = ''completed'' then t1\<lparr>status := ''pending''\<rparr>
                else t1\<lparr>status := ''completed''\<rparr>)\<lparr>updated_at := n2\<rparr>"
  have r2: "router_toggle_task_completion s1 n2 uid tid caller = Inr (t2, commit_task s1 t2)"
    by (simp add: router_toggle_task_completion_def load1 toggle_task_completion_def
        t2_def Let_def)
  have "t2 = t0\<lparr>updated_at := n2\<rparr>"
    using flag by (auto simp: t2_def t1_def)
  with r1 r2 st1 show ?thesis by blast
qed

lemma integer_toggle_twice:
  assumes "TaskService_get_task_by_id s tid (bu_id caller) = Some t0"
  shows "\<exists>t1 s1 t2 s2.
           api_toggle_task_completion s n1 tid caller = Inr (t1, s1)
         \<and> api_toggle_task_completion s1 n2 tid caller = Inr (t2, s2)
         \<and> b_completed t1 = (\<not> b_completed t0)
         \<and> t2 = t0\<lparr>b_updated_at := n2\<rparr>"
proof -
  define t1 where "t1 = t0\<lparr>b_completed := \<not> b_completed t0, b_updated_at := n1\<rparr>"
  define s1 where "s1 = b_commit_task s t1"
  from assms have f0: "find (\<lambda>t. b_id t = tid) (b_tasks s) = Some t0"
    and own0: "b_user_id t0 = bu_id caller"
    by (auto simp: TaskService_get_task_by_id_def split: option.splits if_splits)
  have id0: "b_id t0 = tid" using f0 by (rule find_SomeD)
  have r1: "api_toggle_task_completion s n1 tid caller = Inr (t1, s1)"
    by (simp add: api_toggle_task_completion_def TaskService_toggle_task_completion_def
        assms t1_def s1_def Let_def)
  have id1: "b_id t1 = tid" using id0 by (simp add: t1_def)
  have "find (\<lambda>r. b_id r = tid) (b_tasks s1) = Some t1"
    using b_find_commit [of t1 s t0] f0 by (simp add: s1_def id1)
  then have g1: "TaskService_get_task_by_id s1 tid (bu_id caller) = Some t1"
    using own0 by (simp add: TaskService_get_task_by_id_def t1_def)
  define t2 where "t2 = t1\<lparr>b_completed := \<not> b_completed t1, b_updated_at := n2\<rparr>"
  have r2: "api_toggle_task_completion s1 n2 tid caller = Inr (t2, b_commit_task s1 t2)"
    by (simp add: api_toggle_task_completion_def TaskService_toggle_task_completion_def
        g1 t2_def Let_def)
  have "t2 = t0\<lparr>b_updated_at := n2\<rparr>" by (simp add: t2_def t1_def)
  moreover have "b_completed t1 = (\<not> b_completed t0)" by (simp add: t1_def)
  ultimately show ?thesis using r1 r2 by blast
qed

text \<open>
  Claim C8. For a task that exists and is owned by the caller, the toggle request succeeds,
  one toggle turns \<open>pending\<close> into \<open>completed\<close> and \<open>completed\<close> into \<open>pending\<close> (in the
  integer-keyed variant it negates \<open>completed\<close>), and a second toggle right after the first
  returns the stored task to its original value in every field but \<open>updated_at\<close>.
\<close>

theorem toggle_twice_restores_flag:
  assumes "get_task_by_id s tid = Some t0"
    and "user_id t0 = user_id_pk caller"
    and "uid = user_id_pk caller"
    and "two_state t0"
    and "TaskService_get_task_by_id bs btid (bu_id bcaller) = Some bt0"
  shows "(\<exists>t1 s1 t2 s2.
            router_toggle_task_completion s n1 uid tid caller = Inr (t1, s1)
          \<and> router_toggle_task_completion s1 n2 uid tid caller = Inr (t2, s2)
          \<and> status t1 = (if status t0 = ''pending'' then ''completed'' else ''pending'')
          \<and> t2 = t0\<lparr>updated_at := n2\<rparr>)
       \<and> (\<exists>t1 s1 t2 s2.
            api_toggle_task_completion bs n1 btid bcaller = Inr (t1, s1)
          \<and> api_toggle_task_completion s1 n2 btid bcaller = Inr (t2, s2)
          \<and> b_completed t1 = (\<not> b_completed bt0)
          \<and> t2 = bt0\<lparr>b_updated_at := n2\<rparr>)"
  using uuid_toggle_twice [OF assms(1-4)] integer_toggle_twice [OF assms(5)]
  by blast

theorem toggle_twice_restores_flag_witness:
  "get_task_by_id ex_session (UUID ''t1'') = Some ex_task
   \<and> user_id ex_task = user_id_pk alice
   \<and> UUID ''a1'' = user_id_pk alice
   \<and> two_state ex_task
   \<and> TaskService_get_task_by_id ex_bsession 1 (bu_id b_alice) = Some ex_btask
   \<and> (\<exists>t1 s1 t2 s2.
          router_toggle_task_completion ex_session 20 (UUID ''a1'') (UUID ''t1'') alice = Inr (t1, s1)
        \<and> router_toggle_task_completion s1 30 (UUID ''a1'') (UUID ''t1'') alice = Inr (t2, s2)
        \<and> status t1 = (if status ex_task = ''pending'' then ''completed'' else ''pending'')
        \<and> t2 = ex_task\<lparr>updated_at := 30\<rparr>)
   \<and> (\<exists>t1 s1 t2 s2.
          api_toggle_task_completion ex_bsession 20 1 b_alice = Inr (t1, s1)
        \<and> api_toggle_task_completion s1 30 1 b_alice = Inr (t2, s2)
        \<and> b_completed t1 = (\<not> b_completed ex_btask)
        \<and> t2 = ex_btask\<lparr>b_updated_at := 30\<rparr>)"
proof -
  have h1: "get_task_by_id ex_session (UUID ''t1'') = Some ex_task"
    by (simp add: example_defs get_task_by_id_def)
  have h2: "user_id ex_task = user_id_pk alice"
    by (simp add: example_defs)
  have h3: "UUID ''a1'' = user_id_pk alice"
    by (simp add: example_defs)
  have h4: "two_state ex_task"
    by (simp add: example_defs two_state_def)
  have h5: "TaskService_get_task_by_id ex_bsession 1 (bu_id b_alice) = Some ex_btask"
    by (simp add: example_defs TaskService_get_task_by_id_def)
  note c = toggle_twice_restores_flag [OF h1 h2 h3 h4 h5, of 20 30]
  from h1 h2 h3 h4 h5 c show ?thesis by blast
qed

section \<open>Listing tasks\<close>

lemma find_Some_mem: "find P xs = Some x \<Longrightarrow> x \<in> set xs"
  by (induction xs) (auto split: if_splits)

text \<open>
  When the dependency yields a user, the token was accepted by the decoder and its subject
  is the text of that user's id.
\<close>

lemma get_current_user_subject:
  assumes "get_current_user st now s tok = Inr b"
  shows "\<exists>p. jwt_decode now tok (BETTER_AUTH_SECRET st) [JWT_ALGORITHM st] = Inr p
           \<and> payload_get p ''sub'' = Some (JStr (str_uuid (user_id_pk b)))
           \<and> b \<in> set (users s)"
  using assms
  by (auto simp: get_current_user_def
      split: sum.splits decode_exn.splits option.splits json.splits
      dest: find_SomeD find_Some_mem)

text \<open>A list request that succeeds was made by the owner named in the path, for own rows.\<close>

lemma uuid_list_only_own:
  assumes "endpoint_get_user_tasks st now s tok a = Inr ts"
  shows "\<exists>b. get_current_user st now s tok = Inr b \<and> user_id_pk b = a
           \<and> (\<forall>t \<in> set ts. user_id t = a)"
  using assms
  by (auto simp: endpoint_get_user_tasks_def router_get_user_tasks_def get_user_tasks_def
      uuid.expand split: sum.splits if_splits)

text \<open>
  Claim C1. A task-list request that names owner \<open>a\<close> and carries a token which
  authenticates another user \<open>b\<close> ends in 403, so it returns no task at all. The
  integer-keyed list request names no owner; it returns rows of the authenticated caller
  only.
\<close>

theorem list_for_other_owner_forbidden:
  assumes "get_current_user st now s tok = Inr b"
    and "user_id_pk b \<noteq> a"
  shows "endpoint_get_user_tasks st now s tok a = Inl (HTTPException 403)
       \<and> (\<forall>t \<in> set (api_list_tasks bs bcaller completed). b_user_id t = bu_id bcaller)"
proof -
  have "endpoint_get_user_tasks st now s tok a = Inl (HTTPException 403)"
    using assms
    by (cases a; cases "user_id_pk b")
       (auto simp: endpoint_get_user_tasks_def router_get_user_tasks_def HTTP_403_FORBIDDEN_def)
  moreover have "\<forall>t \<in> set (api_list_tasks bs bcaller completed). b_user_id t = bu_id bcaller"
    by (auto simp: api_list_tasks_def TaskService_get_tasks_by_user_def)
  ultimately show ?thesis by blast
qed

theorem list_for_other_owner_forbidden_witness:
  "get_current_user ex_settings 50 ex_session ex_token_bob = Inr bob
   \<and> user_id_pk bob \<noteq> UUID ''a1''
   \<and> endpoint_get_user_tasks ex_settings 50 ex_session ex_token_bob (UUID ''a1'')
       = Inl (HTTPException 403)
   \<and> ex_btask \<in> set (api_list_tasks ex_bsession b_alice None)
   \<and> b_user_id ex_btask = bu_id b_alice"
proof -
  have h1: "get_current_user ex_settings 50 ex_session ex_token_bob = Inr bob"
    by (simp add: example_defs get_current_user_def jwt_defs)
  have h2: "user_id_pk bob \<noteq> UUID ''a1''"
    by (simp add: example_defs)
  have m: "ex_btask \<in> set (api_list_tasks ex_bsession b_alice None)"
    by (simp add: example_defs api_list_tasks_def TaskService_get_tasks_by_user_def)
  note c = list_for_other_owner_forbidden [OF h1 h2, of ex_bsession b_alice None]
  from c have c1: "endpoint_get_user_tasks ex_settings 50 ex_session ex_token_bob (UUID ''a1'')
       = Inl (HTTPException 403)" by blast
  from c m have c2: "b_user_id ex_btask = bu_id b_alice" by blast
  from h1 h2 c1 m c2 show ?thesis by blast
qed

section \<open>Creating a task\<close>

lemma parse_TaskCreate_cong:
  assumes "payload_get body' ''title'' = payload_get body ''title''"
    and "payload_get body' ''description'' = payload_get body ''description''"
  shows "parse_TaskCreate body' = parse_TaskCreate body"
proof -
  have pd: "parse_description 2000 body' = parse_description 2000 body"
    using assms(2) by (simp add: parse_description_def)
  show ?thesis
    unfolding parse_TaskCreate_def pd assms(1) by (rule refl)
qed

lemma parse_BTaskCreate_cong:
  assumes "payload_get body' ''title'' = payload_get body ''title''"
    and "payload_get body' ''description'' = payload_get body ''description''"
  shows "parse_BTaskCreate body' = parse_BTaskCreate body"
proof -
  have pd: "parse_description 1000 body' = parse_description 1000 body"
    using assms(2) by (simp add: parse_description_def)
  show ?thesis
    unfolding parse_BTaskCreate_def pd assms(1) by (rule refl)
qed

lemma uuid_created:
  assumes "endpoint_create_task st now s tok new_id now1 now2 uid body = Inr (t, s')"
  shows "\<exists>caller. get_current_user st now s tok = Inr caller
           \<and> user_id t = user_id_pk caller \<and> status t = ''pending''
           \<and> created_at t = now1 \<and> updated_at t = now2 \<and> t \<in> set (tasks s')"
  using assms
  by (auto simp: endpoint_create_task_def router_create_task_def create_task_def
      insert_task_def Let_def uuid.expand split: sum.splits if_splits)

lemma integer_created:
  assumes "endpoint_api_create_task st now s tok new_id now1 now2 body = Inr (t, s')"
  shows "\<exists>caller. api_get_current_user st now s tok = Inr caller
           \<and> b_user_id t = bu_id caller \<and> b_completed t = False
           \<and> b_created_at t = now1 \<and> b_updated_at t = now2 \<and> t \<in> set (b_tasks s')"
  using assms
  by (auto simp: endpoint_api_create_task_def api_create_task_def
      TaskService_create_task_def b_insert_task_def Let_def split: sum.splits if_splits)

text \<open>
  Claim C2 as stated asks for \<open>created_at = updated_at\<close>. Both services read the clock once
  for each of the two fields, so the two values differ as soon as the clock advances between
  the readings: here the readings are 100 and 101.
\<close>

theorem create_task_timestamps_differ:
  "created_at (fst (create_task ex_session (UUID ''t2'') 100 101 (UUID ''a1'') ex_create))
   \<noteq> updated_at (fst (create_task ex_session (UUID ''t2'') 100 101 (UUID ''a1'') ex_create))"
  by (simp add: create_task_def Let_def)

text \<open>
  Claim C2, amended. Every successful task creation stores a record whose owner is the
  authenticated caller, whose status is \<open>pending\<close> (\<open>completed = False\<close>), whose \<open>created_at\<close>
  is the first reading of the clock taken while the record is built and whose \<open>updated_at\<close>
  is the second; any two request bodies with the same title and description give the same
  result, whatever status, owner id or timestamps they carry besides.
\<close>

theorem create_task_ignores_client_fields:
  assumes "endpoint_create_task st now s tok new_id now1 now2 uid body = Inr (t, s')"
    and "endpoint_api_create_task bst bnow bs btok bnew_id bnow1 bnow2 bbody = Inr (bt, bs')"
  shows "(\<exists>caller. get_current_user st now s tok = Inr caller
            \<and> user_id t = user_id_pk caller \<and> status t = ''pending''
            \<and> created_at t = now1 \<and> updated_at t = now2 \<and> t \<in> set (tasks s'))
       \<and> (\<exists>caller. api_get_current_user bst bnow bs btok = Inr caller
            \<and> b_user_id bt = bu_id caller \<and> b_completed bt = False
            \<and> b_created_at bt = bnow1 \<and> b_updated_at bt = bnow2 \<and> bt \<in> set (b_tasks bs'))
       \<and> (\<forall>body'. payload_get body' ''title'' = payload_get body ''title''
                  \<and> payload_get body' ''description'' = payload_get body ''description''
            \<longrightarrow> endpoint_create_task st now s tok new_id now1 now2 uid body' = Inr (t, s'))
       \<and> (\<forall>body'. payload_get body' ''title'' = payload_get bbody ''title''
                  \<and> payload_get body' ''description'' = payload_get bbody ''description''
            \<longrightarrow> endpoint_api_create_task bst bnow bs btok bnew_id bnow1 bnow2 body'
                  = Inr (bt, bs'))"
proof -
  have "endpoint_create_task st now s tok new_id now1 now2 uid body' = Inr (t, s')"
    if "payload_get body' ''title'' = payload_get body ''title''"
      and "payload_get body' ''description'' = payload_get body ''description''" for body'
    using assms(1) unfolding endpoint_create_task_def parse_TaskCreate_cong [OF that] .
  moreover
  have "endpoint_api_create_task bst bnow bs btok bnew_id bnow1 bnow2 body' = Inr (bt, bs')"
    if "payload_get body' ''title'' = payload_get bbody ''title''"
      and "payload_get body' ''description'' = payload_get bbody ''description''" for body'
    using assms(2) unfolding endpoint_api_create_task_def parse_BTaskCreate_cong [OF that] .
  ultimately show ?thesis
    using uuid_created [OF assms(1)] integer_created [OF assms(2)] by blast
qed

theorem create_task_ignores_client_fields_witness:
  "endpoint_create_task ex_settings 50 ex_session ex_token_alice (UUID ''t2'') 100 101
       (UUID ''a1'') ex_create_body = Inr (ex_created, insert_task ex_session ex_created)
   \<and> endpoint_api_create_task ex_bsettings 50 ex_bsession ex_btoken_alice 2 100 101
       ex_create_body = Inr (ex_bcreated, b_insert_task ex_bsession ex_bcreated)
   \<and> (\<exists>caller. get_current_user ex_settings 50 ex_session ex_token_alice = Inr caller
         \<and> user_id ex_created = user_id_pk caller \<and> status ex_created = ''pending''
         \<and> created_at ex_created = 100 \<and> updated_at ex_created = 101
         \<and> ex_created \<in> set (tasks (insert_task ex_session ex_created)))
   \<and> endpoint_create_task ex_settings 50 ex_session ex_token_alice (UUID ''t2'') 100 101
       (UUID ''a1'') [(''title'', JStr ''x'')] = Inr (ex_created, insert_task ex_session ex_created)
   \<and> endpoint_api_create_task ex_bsettings 50 ex_bsession ex_btoken_alice 2 100 101
       [(''title'', JStr ''x'')] = Inr (ex_bcreated, b_insert_task ex_bsession ex_bcreated)"
proof -
  have h1: "endpoint_create_task ex_settings 50 ex_session ex_token_alice (UUID ''t2'') 100 101
       (UUID ''a1'') ex_create_body = Inr (ex_created, insert_task ex_session ex_created)"
    by (simp add: endpoint_create_task_def example_defs get_current_user_def jwt_defs
        parse_TaskCreate_def validate_title_not_empty_def strip_def py_isspace_def
        parse_description_def field_value_def router_create_task_def create_task_def Let_def)
  have h2: "endpoint_api_create_task ex_bsettings 50 ex_bsession ex_btoken_alice 2 100 101
       ex_create_body = Inr (ex_bcreated, b_insert_task ex_bsession ex_bcreated)"
    by (simp add: endpoint_api_create_task_def example_defs api_get_current_user_def
        decode_token_def jwt_defs py_int_def py_digits_def int_strip_def int_isspace_def strip_def py_isspace_def is_digit_def
        digit_val_def parse_BTaskCreate_def parse_description_def field_value_def
        api_create_task_def TaskService_create_task_def Let_def)
  have p1: "payload_get [(''title'', JStr ''x'')] ''title'' = payload_get ex_create_body ''title''
          \<and> payload_get [(''title'', JStr ''x'')] ''description''
              = payload_get ex_create_body ''description''"
    by (simp add: payload_get_def ex_create_body_def)
  note c = create_task_ignores_client_fields [OF h1 h2]
  from c have c1: "\<exists>caller. get_current_user ex_settings 50 ex_session ex_token_alice = Inr caller
         \<and> user_id ex_created = user_id_pk caller \<and> status ex_created = ''pending''
         \<and> created_at ex_created = 100 \<and> updated_at ex_created = 101
         \<and> ex_created \<in> set (tasks (insert_task ex_session ex_created))"
    by (rule conjunct1)
  from c p1 have c2: "endpoint_create_task ex_settings 50 ex_session ex_token_alice (UUID ''t2'')
       100 101 (UUID ''a1'') [(''title'', JStr ''x'')]
       = Inr (ex_created, insert_task ex_session ex_created)"
    by blast
  from c p1 have c3: "endpoint_api_create_task ex_bsettings 50 ex_bsession ex_btoken_alice 2
       100 101 [(''title'', JStr ''x'')] = Inr (ex_bcreated, b_insert_task ex_bsession ex_bcreated)"
    by blast
  from h1 h2 c1 c2 c3 show ?thesis by blast
qed

section \<open>Token verification\<close>

lemma validate_exp_expired:
  assumes "numeric_claim p ''exp'' = Inr (Some e)" and "e < now"
  shows "validate_exp now p = Some (Jose ExpiredSignatureError)"
  using assms by (simp add: validate_exp_def)

lemma validate_claims_expired:
  assumes "numeric_claim p ''exp'' = Inr (Some e)" and "e < now"
  shows "\<exists>x. validate_claims now p = Inl x
           \<and> (x = Jose ExpiredSignatureError \<or> validate_iat p = Some x
               \<or> validate_nbf now p = Some x)"
  unfolding validate_claims_def validate_exp_expired [OF assms]
  by (cases "validate_iat p"; cases "validate_nbf now p") simp_all

lemma jwt_decode_expired:
  assumes "numeric_claim p ''exp'' = Inr (Some e)" and "e < now"
  shows "\<exists>x. jwt_decode now (Signed alg k p) key algs = Inl x
           \<and> (x = Jose ExpiredSignatureError \<or> x = Jose JWTError
               \<or> validate_iat p = Some x \<or> validate_nbf now p = Some x)"
  using validate_claims_expired [OF assms]
  by (auto simp: jwt_decode_def)

text \<open>
  The checks of \<open>iat\<close> and \<open>nbf\<close> precede the one of \<open>exp\<close>. They raise a \<open>JWTError\<close>
  unless the claim holds a value on which \<^verbatim>\<open>int\<close> raises \<open>TypeError\<close>.
\<close>

lemma numeric_claim_typed:
  "validate_iat p = Some x \<Longrightarrow> (\<forall>y. numeric_claim p ''iat'' \<noteq> Inl (Other y))
     \<Longrightarrow> \<exists>j. x = Jose j"
  "validate_nbf now p = Some x \<Longrightarrow> (\<forall>y. numeric_claim p ''nbf'' \<noteq> Inl (Other y))
     \<Longrightarrow> \<exists>j. x = Jose j"
  by (auto simp: validate_iat_def validate_nbf_def
      split: sum.splits option.splits if_splits decode_exn.splits
      intro: decode_exn.exhaust)

text \<open>
  What holds of every token whose \<open>exp\<close> lies in the past: no payload is ever returned,
  whoever signed it. The result is \<open>None\<close> whenever the \<open>iat\<close> and \<open>nbf\<close> claims are absent or
  of a type that \<^verbatim>\<open>int\<close> converts or refuses with \<open>ValueError\<close>. A token signed with
  another key, a token with another algorithm and a malformed token are answered with
  \<open>None\<close>. Both variants' decode functions agree.
\<close>

lemma expired_or_forged_token_outcomes:
  assumes "numeric_claim p ''exp'' = Inr (Some e)" and "e < now"
  shows "(\<forall>q. decode_jwt_token st now (Signed alg k p) \<noteq> Inr (Some q))
       \<and> ((\<forall>y. numeric_claim p ''iat'' \<noteq> Inl (Other y))
            \<and> (\<forall>y. numeric_claim p ''nbf'' \<noteq> Inl (Other y))
            \<longrightarrow> decode_jwt_token st now (Signed alg k p) = Inr None)
       \<and> (k' \<noteq> BETTER_AUTH_SECRET st
            \<longrightarrow> decode_jwt_token st now (Signed alg' k' p') = Inr None)
       \<and> (alg' \<noteq> JWT_ALGORITHM st
            \<longrightarrow> decode_jwt_token st now (Signed alg' k' p') = Inr None)
       \<and> decode_jwt_token st now (Malformed raw) = Inr None
       \<and> decode_token st now tok = decode_jwt_token st now tok"
proof -
  obtain x
    where x: "jwt_decode now (Signed alg k p) (BETTER_AUTH_SECRET st) [JWT_ALGORITHM st] = Inl x"
      and xs: "x = Jose ExpiredSignatureError \<or> x = Jose JWTError
               \<or> validate_iat p = Some x \<or> validate_nbf now p = Some x"
    using jwt_decode_expired [OF assms] by blast
  have a: "\<forall>q. decode_jwt_token st now (Signed alg k p) \<noteq> Inr (Some q)"
    by (cases x) (simp_all add: decode_jwt_token_def x)
  have b: "decode_jwt_token st now (Signed alg k p) = Inr None"
    if "\<forall>y. numeric_claim p ''iat'' \<noteq> Inl (Other y)"
      and "\<forall>y. numeric_claim p ''nbf'' \<noteq> Inl (Other y)"
  proof -
    from xs that numeric_claim_typed have "\<exists>j. x = Jose j" by blast
    then show ?thesis by (auto simp: decode_jwt_token_def x)
  qed
  have c: "decode_jwt_token st now (Signed alg' k' p') = Inr None"
    if "k' \<noteq> BETTER_AUTH_SECRET st"
    using that by (simp add: decode_jwt_token_def jwt_decode_def)
  have d: "decode_jwt_token st now (Signed alg' k' p') = Inr None"
    if "alg' \<noteq> JWT_ALGORITHM st"
    using that by (simp add: decode_jwt_token_def jwt_decode_def)
  have e: "decode_jwt_token st now (Malformed raw) = Inr None"
    by (simp add: decode_jwt_token_def jwt_decode_def)
  have f: "decode_token st now tok = decode_jwt_token st now tok"
    by (simp add: decode_jwt_token_def decode_token_def)
  from a b c d e f show ?thesis by blast
qed

text \<open>
  Claim C3. Verification of a token whose \<open>exp\<close> lies in the past is to return \<open>None\<close>, also
  when the signature is valid; \<^verbatim>\<open>decode_jwt_token\<close> documents this as its result for an
  invalid or expired token. The token below is signed with the configured secret, expired
  at 100 while the clock shows 200, and carries a null \<open>iat\<close>. The decoder checks \<open>iat\<close>
  before \<open>exp\<close>; \<^verbatim>\<open>int(None)\<close> raises \<open>TypeError\<close>, which is no \<open>JWTError\<close>, so neither decode
  function catches it: instead of \<open>None\<close> the call ends in the exception.
\<close>

theorem expired_token_with_null_iat_raises:
  "numeric_claim (tok_claims ex_token_null_iat) ''exp'' = Inr (Some 100)
   \<and> (100 :: int) < 200
   \<and> decode_jwt_token ex_settings 200 ex_token_null_iat = Inl TypeError
   \<and> decode_token ex_bsettings 200 ex_token_null_iat = Inl TypeError
   \<and> decode_jwt_token ex_settings 200 ex_token_null_iat \<noteq> Inr None"
  by (simp add: decode_jwt_token_def decode_token_def jwt_defs example_defs)

section \<open>Signing in\<close>

lemma signin_outcomes:
  "((\<exists>r. signin bcrypt st n1 n2 s em pw = Inr r)
      \<longleftrightarrow> (\<exists>u. find (\<lambda>u. email u = em) (users s) = Some u
               \<and> verify_password bcrypt pw (password_hash u) = Inr True))
   \<and> (find (\<lambda>u. email u = em) (users s) = None
        \<longrightarrow> signin bcrypt st n1 n2 s em pw = Inl (HTTPException 401))
   \<and> (\<forall>u. find (\<lambda>u. email u = em) (users s) = Some u
            \<and> verify_password bcrypt pw (password_hash u) = Inr False
        \<longrightarrow> signin bcrypt st n1 n2 s em pw = Inl (HTTPException 401))"
  by (auto simp: signin_def HTTP_401_UNAUTHORIZED_def
      split: option.splits sum.splits bool.splits)

lemma login_outcomes:
  "((\<exists>r. login bcrypt st n1 s em pw = Inr r)
      \<longleftrightarrow> (\<exists>u. find (\<lambda>u. bu_email u = em) (b_users s) = Some u
               \<and> verify_password bcrypt pw (bu_password_hash u) = Inr True))
   \<and> (find (\<lambda>u. bu_email u = em) (b_users s) = None
        \<longrightarrow> login bcrypt st n1 s em pw = Inl (HTTPException 401))
   \<and> (\<forall>u. find (\<lambda>u. bu_email u = em) (b_users s) = Some u
            \<and> verify_password bcrypt pw (bu_password_hash u) = Inr False
        \<longrightarrow> login bcrypt st n1 s em pw = Inl (HTTPException 401))"
  by (auto simp: login_def AuthService_authenticate_user_def HTTP_401_UNAUTHORIZED_def
      split: option.splits sum.splits bool.splits)

text \<open>
  The hasher raises for a password of more than 4096 characters or with a NUL character,
  on any digest it identifies. Neither signin schema bounds the password, and the hasher is
  called for a known email only.
\<close>

lemma bcrypt_verify_raises:
  assumes "length pw > 4096 \<or> CHR 0x00 \<in> set pw"
    and "bcrypt_identify h"
  shows "\<exists>e. verify_password (bcrypt_verify fs ce) pw h = Inl e"
  using assms
  by (auto simp: verify_password_def pwd_context_verify_def bcrypt_verify_def
      split: option.splits)

lemma signin_known_email_hasher_raises:
  assumes "find (\<lambda>u. email u = em) (users s) = Some u"
    and "bcrypt_identify (password_hash u)"
    and "length pw > 4096 \<or> CHR 0x00 \<in> set pw"
  shows "\<exists>e. signin (bcrypt_verify fs ce) st n1 n2 s em pw = Inl (Unhandled e)"
proof -
  from bcrypt_verify_raises [OF assms(3,2)] obtain e
    where "verify_password (bcrypt_verify fs ce) pw (password_hash u) = Inl e"
    by blast
  with assms(1) show ?thesis by (simp add: signin_def)
qed

lemma login_known_email_hasher_raises:
  assumes "find (\<lambda>u. bu_email u = em) (b_users s) = Some u"
    and "bcrypt_identify (bu_password_hash u)"
    and "length pw > 4096 \<or> CHR 0x00 \<in> set pw"
  shows "\<exists>e. login (bcrypt_verify fs ce) st n1 s em pw = Inl (Unhandled e)"
proof -
  from bcrypt_verify_raises [OF assms(3,2)] obtain e
    where "verify_password (bcrypt_verify fs ce) pw (bu_password_hash u) = Inl e"
    by blast
  with assms(1) show ?thesis
    by (simp add: login_def AuthService_authenticate_user_def)
qed

text \<open>
  Claim C4. A signin request succeeds if and only if the email exists and the password
  verifies (\<open>signin_outcomes\<close>, \<open>login_outcomes\<close>), and a failed signin is to look the same
  for an unknown email and for a wrong password. The second part fails for the password
  that consists of one NUL character: for the unknown email \<open>c@x.com\<close> both variants answer
  401, for the known email \<open>a@x.com\<close> the hasher raises, nothing catches it, and the answer
  is 500. The status code tells whether the email exists.
\<close>

theorem signin_status_reveals_known_email:
  "signin ex_handler ex_settings 0 0 ex_session ''c@x.com'' [CHR 0x00] = Inl (HTTPException 401)
   \<and> signin ex_handler ex_settings 0 0 ex_session ''a@x.com'' [CHR 0x00]
       = Inl (Unhandled NullPasswordError)
   \<and> login ex_handler ex_bsettings 0 ex_bsession ''c@x.com'' [CHR 0x00] = Inl (HTTPException 401)
   \<and> login ex_handler ex_bsettings 0 ex_bsession ''a@x.com'' [CHR 0x00]
       = Inl (Unhandled NullPasswordError)
   \<and> status_code (HTTPException 401) = 401
   \<and> status_code (Unhandled NullPasswordError) = 500"
  by (simp add: signin_def login_def AuthService_authenticate_user_def verify_password_def
      pwd_context_verify_def bcrypt_identify_def bcrypt_verify_def example_defs
      HTTP_401_UNAUTHORIZED_def)

section \<open>Verifying a password\<close>

text \<open>
  Claim C5 as stated asks that a malformed digest makes \<open>verify_password\<close> return false.
  Neither variant catches what the hashing context raises: on a digest that no scheme of the
  context identifies, the call ends in \<open>UnknownHashError\<close>.
\<close>

theorem verify_password_raises_on_unidentified_digest:
  "verify_password ex_bcrypt ''Abc12345'' ''not-a-hash'' = Inl UnknownHashError
   \<and> verify_password ex_bcrypt ''Abc12345'' ''not-a-hash'' \<noteq> Inr False"
  by (simp add: verify_password_def pwd_context_verify_def bcrypt_identify_def)

text \<open>
  Claim C5, amended. \<open>verify_password\<close> is the bare call of the hashing context: on a digest
  that is not identified as bcrypt by its prefix it raises \<open>UnknownHashError\<close>, whatever the
  password; on an identified digest it returns or raises exactly what the bcrypt handler
  does.
\<close>

theorem verify_password_delegates:
  "(\<not> bcrypt_identify h \<longrightarrow> verify_password bcrypt pw h = Inl UnknownHashError)
   \<and> (bcrypt_identify h \<longrightarrow> verify_password bcrypt pw h = bcrypt pw h)"
  by (simp add: verify_password_def pwd_context_verify_def)

theorem verify_password_delegates_witness:
  "\<not> bcrypt_identify ''Abc12345''
   \<and> verify_password ex_bcrypt ''Abc12345'' ''Abc12345'' = Inl UnknownHashError
   \<and> bcrypt_identify ''$2b$Abc12345''
   \<and> verify_password ex_bcrypt ''Abc12345'' ''$2b$Abc12345''
       = ex_bcrypt ''Abc12345'' ''$2b$Abc12345''"
proof -
  have n: "\<not> bcrypt_identify ''Abc12345''"
    and y: "bcrypt_identify ''$2b$Abc12345''"
    by (simp_all add: bcrypt_identify_def)
  note a = verify_password_delegates [of "''Abc12345''" ex_bcrypt "''Abc12345''"]
  note b = verify_password_delegates [of "''$2b$Abc12345''" ex_bcrypt "''Abc12345''"]
  from a n have r1: "verify_password ex_bcrypt ''Abc12345'' ''Abc12345'' = Inl UnknownHashError"
    by blast
  from b y have r2: "verify_password ex_bcrypt ''Abc12345'' ''$2b$Abc12345''
       = ex_bcrypt ''Abc12345'' ''$2b$Abc12345''"
    by blast
  from n y r1 r2 show ?thesis by blast
qed

section \<open>Title validation\<close>

lemma last_dropWhile: "dropWhile P xs \<noteq> [] \<Longrightarrow> last (dropWhile P xs) = last xs"
  by (induction xs) (auto split: if_splits)

lemma strip_last: "strip v \<noteq> [] \<Longrightarrow> \<not> py_isspace (last (strip v))"
  unfolding strip_def
  by (simp add: last_rev hd_dropWhile)

lemma strip_hd:
  assumes "strip v \<noteq> []"
  shows "\<not> py_isspace (hd (strip v))"
proof -
  let ?a = "dropWhile py_isspace v"
  let ?b = "dropWhile py_isspace (rev ?a)"
  from assms have b: "?b \<noteq> []" by (simp add: strip_def)
  then have a: "?a \<noteq> []" by (cases "?a") simp_all
  have "hd (strip v) = last ?b" by (simp add: strip_def hd_rev)
  also have "\<dots> = last (rev ?a)" using b by (rule last_dropWhile)
  also have "\<dots> = hd ?a" using a by (simp add: last_rev)
  finally show ?thesis using a by (simp add: hd_dropWhile)
qed

lemma strip_all_space:
  assumes "\<forall>c \<in> set v. py_isspace c"
  shows "strip v = []"
proof -
  from assms have a: "dropWhile py_isspace v = []" by simp
  show ?thesis unfolding strip_def a by simp
qed

lemma parse_TaskCreate_title:
  assumes "parse_TaskCreate body = Inr d"
  shows "\<exists>v. payload_get body ''title'' = Some (JStr v) \<and> tc_title d = strip v
           \<and> strip v \<noteq> []"
  using assms
  by (auto simp: parse_TaskCreate_def validate_title_not_empty_def
      split: option.splits json.splits if_splits sum.splits)

lemma parse_TaskUpdate_title:
  assumes "parse_TaskUpdate body = Inr u"
    and "payload_get body ''title'' = Some (JStr v)"
  shows "tu_title u = Given (Some (strip v)) \<and> strip v \<noteq> []"
  using assms
  by (auto simp: parse_TaskUpdate_def parse_update_title_def validate_title_not_empty_def
      split: option.splits json.splits if_splits sum.splits)

lemma blank_title_rejected:
  assumes "payload_get body ''title'' = Some (JStr v)"
    and "strip v = []"
  shows "parse_TaskCreate body = Inl RequestValidationError"
    and "parse_TaskUpdate body = Inl RequestValidationError"
  using assms
  by (auto simp: parse_TaskCreate_def parse_TaskUpdate_def parse_update_title_def
      validate_title_not_empty_def split: option.splits json.splits if_splits sum.splits)

lemma integer_title_as_sent:
  "parse_BTaskCreate body = Inr d \<Longrightarrow>
     \<exists>v. payload_get body ''title'' = Some (JStr v) \<and> btc_title d = v"
  "parse_b_update_title body = Inr f \<Longrightarrow> payload_get body ''title'' = Some (JStr v) \<Longrightarrow>
     f = Given (Some v)"
  by (auto simp: parse_BTaskCreate_def parse_b_update_title_def
      split: option.splits json.splits if_splits sum.splits)

text \<open>
  Claim C6 as stated covers both variants. The schemas of the integer-keyed variant carry a
  length bound and no validator: a create request whose title is three spaces is accepted
  and the title is stored as sent.
\<close>

theorem integer_variant_stores_blank_title:
  "endpoint_api_create_task ex_bsettings 50 ex_bsession ex_btoken_alice 2 100 101 ex_blank_body
     = Inr (ex_bcreated\<lparr>b_title := ''   ''\<rparr>,
            b_insert_task ex_bsession (ex_bcreated\<lparr>b_title := ''   ''\<rparr>))"
  by (simp add: endpoint_api_create_task_def example_defs api_get_current_user_def
      decode_token_def jwt_defs py_int_def py_digits_def int_strip_def int_isspace_def strip_def py_isspace_def is_digit_def
      digit_val_def parse_BTaskCreate_def parse_description_def field_value_def
      api_create_task_def TaskService_create_task_def Let_def)

text \<open>
  Claim C6, amended. In the UUID-keyed variant a title string of a create or update request
  is stripped of surrounding whitespace; a title that is empty or all whitespace is rejected
  with a validation error (422); the title an accepted request carries on, and the title a
  created or updated task gets from it, is the stripped one: non-empty, with no whitespace
  at either end. The integer-keyed variant takes the title as sent.
\<close>

theorem uuid_title_trimmed_nonempty:
  "(parse_TaskCreate body = Inr d \<longrightarrow>
      (\<exists>v. payload_get body ''title'' = Some (JStr v) \<and> tc_title d = strip v)
      \<and> tc_title d \<noteq> [] \<and> \<not> py_isspace (hd (tc_title d))
      \<and> \<not> py_isspace (last (tc_title d))
      \<and> title (fst (create_task s new_id now1 now2 uid d)) = tc_title d)
   \<and> (parse_TaskUpdate body = Inr u \<and> payload_get body ''title'' = Some (JStr v) \<longrightarrow>
      tu_title u = Given (Some (strip v))
      \<and> strip v \<noteq> [] \<and> \<not> py_isspace (hd (strip v)) \<and> \<not> py_isspace (last (strip v))
      \<and> (\<forall>t' s'. update_task s now task u = Inr (t', s') \<longrightarrow> title t' = strip v))
   \<and> (payload_get body ''title'' = Some (JStr v) \<and> (\<forall>c \<in> set v. py_isspace c) \<longrightarrow>
      parse_TaskCreate body = Inl RequestValidationError
      \<and> parse_TaskUpdate body = Inl RequestValidationError
      \<and> status_code RequestValidationError = 422)
   \<and> (parse_BTaskCreate body = Inr bd \<longrightarrow>
      (\<exists>v. payload_get body ''title'' = Some (JStr v) \<and> btc_title bd = v))
   \<and> (parse_b_update_title body = Inr f \<and> payload_get body ''title'' = Some (JStr v) \<longrightarrow>
      f = Given (Some v))"
proof -
  have a: "(\<exists>v. payload_get body ''title'' = Some (JStr v) \<and> tc_title d = strip v)
      \<and> tc_title d \<noteq> [] \<and> \<not> py_isspace (hd (tc_title d))
      \<and> \<not> py_isspace (last (tc_title d))
      \<and> title (fst (create_task s new_id now1 now2 uid d)) = tc_title d"
    if "parse_TaskCreate body = Inr d"
  proof -
    from parse_TaskCreate_title [OF that] obtain w
      where w: "payload_get body ''title'' = Some (JStr w)" "tc_title d = strip w"
        "strip w \<noteq> []"
      by blast
    have "title (fst (create_task s new_id now1 now2 uid d)) = tc_title d"
      by (simp add: create_task_def Let_def)
    with w strip_hd [of w] strip_last [of w] show ?thesis by auto
  qed
  have b: "tu_title u = Given (Some (strip v))
      \<and> strip v \<noteq> [] \<and> \<not> py_isspace (hd (strip v)) \<and> \<not> py_isspace (last (strip v))
      \<and> (\<forall>t' s'. update_task s now task u = Inr (t', s') \<longrightarrow> title t' = strip v)"
    if "parse_TaskUpdate body = Inr u" and "payload_get body ''title'' = Some (JStr v)"
  proof -
    from parse_TaskUpdate_title [OF that]
    have t: "tu_title u = Given (Some (strip v))" and n: "strip v \<noteq> []"
      by blast+
    have "title t' = strip v" if "update_task s now task u = Inr (t', s')" for t' s'
      using that t
      by (auto simp: update_task_def Let_def split: if_splits field.splits option.splits)
    with t n strip_hd [OF n] strip_last [OF n] show ?thesis by blast
  qed
  have c: "parse_TaskCreate body = Inl RequestValidationError
      \<and> parse_TaskUpdate body = Inl RequestValidationError
      \<and> status_code RequestValidationError = 422"
    if "payload_get body ''title'' = Some (JStr v)" and "\<forall>c \<in> set v. py_isspace c"
    using blank_title_rejected [OF that(1) strip_all_space [OF that(2)]] by simp
  from a b c integer_title_as_sent(1) [of body bd] integer_title_as_sent(2) [of body f v]
  show ?thesis by blast
qed

theorem uuid_title_trimmed_nonempty_witness:
  "parse_TaskCreate ex_padded_body = Inr ex_create
   \<and> tc_title ex_create = strip ''  x ''
   \<and> tc_title ex_create \<noteq> []
   \<and> payload_get ex_blank_body ''title'' = Some (JStr ''   '')
   \<and> list_all py_isspace ''   ''
   \<and> parse_TaskCreate ex_blank_body = Inl RequestValidationError
   \<and> parse_TaskUpdate ex_blank_body = Inl RequestValidationError
   \<and> parse_TaskUpdate ex_padded_body = Inr (empty_update\<lparr>tu_title := Given (Some ''x'')\<rparr>)
   \<and> payload_get ex_padded_body ''title'' = Some (JStr ''  x '')
   \<and> tu_title (empty_update\<lparr>tu_title := Given (Some ''x'')\<rparr>) = Given (Some (strip ''  x ''))"
proof -
  have h1: "parse_TaskCreate ex_padded_body = Inr ex_create"
    by (simp add: example_defs parse_TaskCreate_def payload_get_def validate_title_not_empty_def
        strip_def py_isspace_def parse_description_def field_value_def)
  have h2: "parse_TaskUpdate ex_padded_body = Inr (empty_update\<lparr>tu_title := Given (Some ''x'')\<rparr>)"
    by (simp add: example_defs parse_TaskUpdate_def parse_update_title_def payload_get_def
        validate_title_not_empty_def strip_def py_isspace_def parse_description_def
        validate_status_def)
  have h3: "payload_get ex_padded_body ''title'' = Some (JStr ''  x '')"
    by (simp add: example_defs payload_get_def)
  have h4: "payload_get ex_blank_body ''title'' = Some (JStr ''   '')"
    by (simp add: example_defs payload_get_def)
  have h5: "\<forall>c \<in> set ''   ''. py_isspace c"
    by (simp add: py_isspace_def)
  note a = uuid_title_trimmed_nonempty [of ex_padded_body ex_create ex_session "UUID ''t2''" 100 101
      "UUID ''a1''" "empty_update\<lparr>tu_title := Given (Some ''x'')\<rparr>" "''  x ''" 20 ex_task]
  note b = uuid_title_trimmed_nonempty [of ex_blank_body ex_create ex_session "UUID ''t2''" 100 101
      "UUID ''a1''" empty_update "''   ''" 20 ex_task]
  from a h1 h3 have r1: "tc_title ex_create = strip ''  x ''" by auto
  from a h1 have r2: "tc_title ex_create \<noteq> []" by blast
  from a h2 h3
  have r3: "tu_title (empty_update\<lparr>tu_title := Given (Some ''x'')\<rparr>) = Given (Some (strip ''  x ''))"
    by blast
  from b h4 h5 have r4: "parse_TaskCreate ex_blank_body = Inl RequestValidationError"
    and r5: "parse_TaskUpdate ex_blank_body = Inl RequestValidationError"
    by blast+
  have h6: "list_all py_isspace ''   ''"
    by (simp add: py_isspace_def)
  from h1 h2 h3 h4 h6 r1 r2 r3 r4 r5 show ?thesis by blast
qed

section \<open>Partial update\<close>








lemma load_owned_task_InrD:
  assumes "load_owned_task s uid tid caller = Inr task"
  shows "get_task_by_id s tid = Some task \<and> user_id task = uid \<and> user_id_pk caller = uid
       \<and> task_id task = tid"
  using assms
  by (auto simp: load_owned_task_def validate_task_ownership_def get_task_by_id_def uuid.expand
      split: if_splits option.splits dest: find_SomeD)

text \<open>Both update handlers pass the row they loaded from the table to \<open>update_task\<close>.\<close>

lemma router_update_loads_task:
  assumes "router_partial_update_task s now uid tid d caller = Inr r
           \<or> router_update_task s now uid tid d caller = Inr r"
  shows "\<exists>task. get_task_by_id s (task_id task) = Some task \<and> task_id task = tid
           \<and> user_id task = user_id_pk caller \<and> update_task s now task d = Inr r"
  using assms
  by (auto simp: router_partial_update_task_def router_update_task_def
      split: sum.splits dest!: load_owned_task_InrD)







section \<open>The subject of a token in the integer-keyed variant\<close>

text \<open>
  Claim C10 as stated covers every validly signed, unexpired token without a usable
  subject. One of them has an empty payload: it carries no \<open>exp\<close>, so it never expires, and
  no \<open>sub\<close>. The decoder returns the empty dictionary, for which \<^verbatim>\<open>not payload\<close> holds, and
  the dependency answers 401 before it reaches the conversion.
\<close>

theorem empty_payload_rejected_401:
  "decode_token ex_bsettings 50 ex_btoken_empty = Inr (Some [])
   \<and> payload_get [] ''sub'' = None
   \<and> api_get_current_user ex_bsettings 50 ex_bsession ex_btoken_empty = Inl (HTTPException 401)"
  by (simp add: api_get_current_user_def decode_token_def jwt_defs example_defs
      HTTP_401_UNAUTHORIZED_def)

text \<open>
  The tokens that \<open>decode_token\<close> accepts: signed under the configured algorithm with the
  configured secret, and with a payload that passes every claim check of the decoder (not
  expired, not before its \<open>nbf\<close>, numeric \<open>iat\<close>, no \<open>aud\<close> or \<open>at_hash\<close>, \<open>sub\<close> and \<open>jti\<close>
  strings when present).
\<close>

lemma decode_token_accepts:
  "decode_token st now tok = Inr (Some p) \<longleftrightarrow>
     (\<exists>alg k. tok = Signed alg k p \<and> alg = JWT_ALGORITHM st \<and> k = BETTER_AUTH_SECRET st
        \<and> validate_claims now p = Inr p)"
proof (cases tok)
  case (Malformed raw)
  then show ?thesis by (simp add: decode_token_def jwt_decode_def)
next
  case (Signed alg k q)
  have v: "validate_claims now q = Inr p \<longleftrightarrow> q = p \<and> validate_claims now p = Inr p"
    by (auto simp: validate_claims_def split: option.splits)
  show ?thesis
  proof (cases "alg = JWT_ALGORITHM st \<and> k = BETTER_AUTH_SECRET st")
    case True
    with Signed v show ?thesis
      by (auto simp: decode_token_def jwt_decode_def split: sum.splits decode_exn.splits)
  next
    case False
    with Signed show ?thesis
      by (auto simp: decode_token_def jwt_decode_def)
  qed
qed

text \<open>
  Claim C10, amended. In the integer-keyed variant, for every token that the decoder accepts
  with a non-empty payload whose \<open>sub\<close> is absent, or is a string that \<^verbatim>\<open>int\<close> does not
  accept, \<open>get_current_user\<close> does not answer 401: the conversion raises \<open>TypeError\<close> (absent)
  or \<open>ValueError\<close> (not a decimal literal), nothing catches it, and the request ends outside
  the 401/403 taxonomy (status 500).
\<close>

theorem unusable_subject_raises_uncaught:
  assumes "decode_token st now tok = Inr (Some p)"
    and "p \<noteq> []"
    and "payload_get p ''sub'' = None
         \<or> (\<exists>v. payload_get p ''sub'' = Some (JStr v) \<and> py_int v = None)"
  shows "api_get_current_user st now s tok
           = Inl (Unhandled (if payload_get p ''sub'' = None then TypeError else ValueError))
       \<and> status_code (Unhandled (if payload_get p ''sub'' = None then TypeError else ValueError))
           = 500"
  using assms
  by (auto simp: api_get_current_user_def)

theorem unusable_subject_raises_uncaught_witness:
  "decode_token ex_bsettings 50 ex_btoken_no_sub = Inr (Some [(''exp'', JInt 100)])
   \<and> payload_get [(''exp'', JInt 100)] ''sub'' = None
   \<and> api_get_current_user ex_bsettings 50 ex_bsession ex_btoken_no_sub
       = Inl (Unhandled TypeError)
   \<and> decode_token ex_bsettings 50 ex_btoken_uuid_sub
       = Inr (Some [(''sub'', JStr ''a1''), (''exp'', JInt 100)])
   \<and> payload_get [(''sub'', JStr ''a1''), (''exp'', JInt 100)] ''sub'' = Some (JStr ''a1'')
   \<and> py_int ''a1'' = None
   \<and> api_get_current_user ex_bsettings 50 ex_bsession ex_btoken_uuid_sub
       = Inl (Unhandled ValueError)
   \<and> decode_token ex_bsettings 50 ex_btoken_fs_sub
       = Inr (Some [(''sub'', JStr [CHR 0x1C, CHR ''1'']), (''exp'', JInt 100)])
   \<and> py_int [CHR 0x1C, CHR ''1''] = None
   \<and> api_get_current_user ex_bsettings 50 ex_bsession ex_btoken_fs_sub
       = Inl (Unhandled ValueError)"
proof -
  have d1: "decode_token ex_bsettings 50 ex_btoken_no_sub = Inr (Some [(''exp'', JInt 100)])"
    by (simp add: decode_token_def jwt_defs example_defs)
  have n1: "[(''exp'', JInt 100)] \<noteq> ([] :: payload)" by simp
  have s1: "payload_get [(''exp'', JInt 100)] ''sub'' = None"
    by (simp add: payload_get_def)
  have d2: "decode_token ex_bsettings 50 ex_btoken_uuid_sub
       = Inr (Some [(''sub'', JStr ''a1''), (''exp'', JInt 100)])"
    by (simp add: decode_token_def jwt_defs example_defs)
  have n2: "[(''sub'', JStr ''a1''), (''exp'', JInt 100)] \<noteq> ([] :: payload)" by simp
  have s2: "payload_get [(''sub'', JStr ''a1''), (''exp'', JInt 100)] ''sub'' = Some (JStr ''a1'')"
    by (simp add: payload_get_def)
  have i2: "py_int ''a1'' = None"
    by (simp add: py_int_def py_digits_def int_strip_def int_isspace_def is_digit_def)
  have d3: "decode_token ex_bsettings 50 ex_btoken_fs_sub
       = Inr (Some [(''sub'', JStr [CHR 0x1C, CHR ''1'']), (''exp'', JInt 100)])"
    by (simp add: decode_token_def jwt_defs example_defs)
  have n3: "[(''sub'', JStr [CHR 0x1C, CHR ''1'']), (''exp'', JInt 100)] \<noteq> ([] :: payload)"
    by simp
  have s3: "payload_get [(''sub'', JStr [CHR 0x1C, CHR ''1'']), (''exp'', JInt 100)] ''sub''
       = Some (JStr [CHR 0x1C, CHR ''1''])"
    by (simp add: payload_get_def)
  have i3: "py_int [CHR 0x1C, CHR ''1''] = None"
    by (simp add: py_int_def py_digits_def int_strip_def int_isspace_def is_digit_def)
  from s1 have a1: "payload_get [(''exp'', JInt 100)] ''sub'' = None
         \<or> (\<exists>v. payload_get [(''exp'', JInt 100)] ''sub'' = Some (JStr v) \<and> py_int v = None)"
    by (rule disjI1)
  from s2 i2 have a2: "payload_get [(''sub'', JStr ''a1''), (''exp'', JInt 100)] ''sub'' = None
         \<or> (\<exists>v. payload_get [(''sub'', JStr ''a1''), (''exp'', JInt 100)] ''sub'' = Some (JStr v)
                \<and> py_int v = None)"
    by blast
  from s3 i3
  have a3: "payload_get [(''sub'', JStr [CHR 0x1C, CHR ''1'']), (''exp'', JInt 100)] ''sub'' = None
         \<or> (\<exists>v. payload_get [(''sub'', JStr [CHR 0x1C, CHR ''1'']), (''exp'', JInt 100)] ''sub''
                  = Some (JStr v)
                \<and> py_int v = None)"
    by blast
  note c1 = unusable_subject_raises_uncaught [OF d1 n1 a1, of ex_bsession]
  note c2 = unusable_subject_raises_uncaught [OF d2 n2 a2, of ex_bsession]
  note c3 = unusable_subject_raises_uncaught [OF d3 n3 a3, of ex_bsession]
  from c1 s1 have r1: "api_get_current_user ex_bsettings 50 ex_bsession ex_btoken_no_sub
       = Inl (Unhandled TypeError)"
    by simp
  from c2 s2 have r2: "api_get_current_user ex_bsettings 50 ex_bsession ex_btoken_uuid_sub
       = Inl (Unhandled ValueError)"
    by simp
  from c3 s3 have r3: "api_get_current_user ex_bsettings 50 ex_bsession ex_btoken_fs_sub
       = Inl (Unhandled ValueError)"
    by simp
  from d1 s1 r1 d2 s2 i2 r2 d3 i3 r3 show ?thesis by blast
qed

end
